theory Spec2Isabelle
  imports Complex_Main
begin

section \<open>The Rincon registry client\<close>

text \<open>
  A shallow embedding of \<^verbatim>\<open>rincon/client.py\<close>, \<^verbatim>\<open>rincon/exceptions.py\<close> and
  \<^verbatim>\<open>rincon/models.py\<close>. Python attributes and methods whose name starts with an
  underscore carry the prefix \<open>p_\<close> here (\<^verbatim>\<open>_service\<close> is \<open>p_service\<close>,
  \<^verbatim>\<open>_request\<close> is \<open>p_request\<close>). Calls to the logger are left out: they change
  nothing the client or its caller can read.
\<close>

subsection \<open>JSON values and the records of models.py\<close>

text \<open>
  What \<^verbatim>\<open>resp.json()\<close> returns. An object is the parsed dictionary as an association
  list; looking a key up takes the first pair with that key.
\<close>

datatype json =
    JNull
  | JBool bool
  | JInt int
  | JFloat real
  | JStr string
  | JArr "json list"
  | JObj "(string \<times> json) list"

text \<open>
  The fields \<^verbatim>\<open>id\<close> and \<^verbatim>\<open>created_at\<close> of a Service are \<open>service_id\<close> and
  \<open>service_created_at\<close>; the fields \<^verbatim>\<open>id\<close> and \<^verbatim>\<open>method\<close> of a Route are \<open>route_id\<close>
  and \<open>route_method\<close>. A timestamp is kept as the string the server sent.
\<close>

type_synonym datetime = string

record Service =
  service_id :: int
  name :: string
  version :: string
  endpoint :: string
  health_check :: string
  updated_at :: "datetime option"
  service_created_at :: "datetime option"

record Route =
  route_id :: string
  route :: string
  route_method :: string
  service_name :: string
  created_at :: "datetime option"

text \<open>\<^verbatim>\<open>service.model_dump(exclude={"id", "updated_at", "created_at"})\<close>\<close>

definition service_model_dump :: "Service \<Rightarrow> json" where
  "service_model_dump sv =
     JObj [(''name'', JStr (name sv)), (''version'', JStr (version sv)),
           (''endpoint'', JStr (endpoint sv)), (''health_check'', JStr (health_check sv))]"

text \<open>\<^verbatim>\<open>route.model_dump(exclude={"id", "created_at"})\<close>\<close>

definition route_model_dump :: "Route \<Rightarrow> json" where
  "route_model_dump r =
     JObj [(''route'', JStr (route r)), (''method'', JStr (route_method r)),
           (''service_name'', JStr (service_name r))]"

subsection \<open>exceptions.py\<close>

datatype exc_class =
  Base | Connection | Auth | NotFound | Validation | Conflict

text \<open>
  An exception of the Rincon hierarchy carries its class, \<^verbatim>\<open>message\<close> and
  \<^verbatim>\<open>status_code\<close>. The message is whatever Python value the raiser passed: a string, or
  the \<^verbatim>\<open>"message"\<close> entry of a JSON body. The other constructors are the exceptions of
  the libraries that the client lets through unchanged: an httpx error other than a
  connection error or a timeout, the failure of \<^verbatim>\<open>resp.json()\<close>, and the failure of
  pydantic's \<^verbatim>\<open>model_validate\<close>.
\<close>

datatype exn =
    Exn (exc_class: exc_class) (exc_message: json) (exc_status_code: "int option")
  | HTTPError
  | JSONDecodeError
  | PydanticValidationError

definition RinconError :: "json \<Rightarrow> int option \<Rightarrow> exn" where
  "RinconError message status_code = Exn Base message status_code"

definition RinconConnectionError :: "json \<Rightarrow> exn" where
  "RinconConnectionError message = Exn Connection message None"

definition RinconAuthError :: "json \<Rightarrow> exn" where
  "RinconAuthError message = Exn Auth message (Some 401)"

definition RinconNotFoundError :: "json \<Rightarrow> exn" where
  "RinconNotFoundError message = Exn NotFound message (Some 404)"

definition RinconValidationError :: "json \<Rightarrow> exn" where
  "RinconValidationError message = Exn Validation message (Some 400)"

definition RinconConflictError :: "json \<Rightarrow> exn" where
  "RinconConflictError message = Exn Conflict message (Some 500)"

subsection \<open>The HTTP transport and the object store\<close>

text \<open>
  An \<^verbatim>\<open>httpx.Response\<close> as far as the client reads it: \<open>resp_json\<close> is the value of
  \<^verbatim>\<open>resp.json()\<close>, \<open>None\<close> when that call raises.
\<close>

record Response =
  status_code :: int
  resp_text :: string
  resp_json :: "json option"

datatype outcome = ConnectError | TimeoutException | OtherTransportError | Reply Response

text \<open>The arguments of \<^verbatim>\<open>self._client.request(method, path, **kwargs)\<close>.\<close>

record Request =
  req_method :: string
  req_path :: string
  req_params :: "(string \<times> string) list option"
  req_json :: "json option"
  req_auth :: "(string \<times> string) option"

record httpx_client =
  base_url :: string
  timeout :: real

type_synonym addr = nat

record Thread =
  is_alive :: bool
  interval :: real

text \<open>
  Everything outside the client object: the registry server behind the network (\<open>world\<close>),
  the requests issued so far, oldest first (\<open>sent\<close>), and the Python objects that are
  shared by reference: Route objects, list objects (each a list of references to Route
  objects) and threads. A reference is an address; \<open>next_route\<close>, \<open>next_list\<close> and
  \<open>next_thread\<close> are the first addresses not yet allocated.
\<close>

record 'w sys =
  world :: 'w
  sent :: "Request list"
  route_objs :: "addr \<Rightarrow> Route"
  next_route :: addr
  list_objs :: "addr \<Rightarrow> addr list"
  next_list :: addr
  threads :: "addr \<Rightarrow> Thread"
  next_thread :: addr

text \<open>
  The libraries the client calls: the HTTP exchange of httpx, pydantic's validation of a
  JSON value (\<open>None\<close> when it raises), and whether the heartbeat thread has ended when
  \<^verbatim>\<open>join(timeout=5.0)\<close> returns.
\<close>

record 'w env =
  transport :: "httpx_client \<Rightarrow> Request \<Rightarrow> 'w \<Rightarrow> outcome \<times> 'w"
  Service_model_validate :: "json \<Rightarrow> Service option"
  Route_model_validate :: "json \<Rightarrow> Route option"
  join :: "'w \<Rightarrow> bool"

definition new_route :: "Route \<Rightarrow> 'w sys \<Rightarrow> addr \<times> 'w sys" where
  "new_route r s =
     (next_route s, s\<lparr>route_objs := (route_objs s)(next_route s := r),
                      next_route := Suc (next_route s)\<rparr>)"

definition new_list :: "addr list \<Rightarrow> 'w sys \<Rightarrow> addr \<times> 'w sys" where
  "new_list xs s =
     (next_list s, s\<lparr>list_objs := (list_objs s)(next_list s := xs),
                     next_list := Suc (next_list s)\<rparr>)"

text \<open>\<^verbatim>\<open>l.append(x)\<close> on the list object at \<open>l\<close>.\<close>

definition list_append :: "addr \<Rightarrow> addr \<Rightarrow> 'w sys \<Rightarrow> 'w sys" where
  "list_append l x s = s\<lparr>list_objs := (list_objs s)(l := list_objs s l @ [x])\<rparr>"

subsection \<open>RinconClient\<close>

record client =
  p_base_url :: string
  p_auth :: "string \<times> string"
  p_client :: httpx_client
  p_service :: "Service option"
  p_routes :: addr
  p_heartbeat_thread :: "addr option"
  p_heartbeat_stop_event :: bool

text \<open>\<^verbatim>\<open>url.rstrip("/")\<close>\<close>

definition rstrip_slash :: "string \<Rightarrow> string" where
  "rstrip_slash url = rev (dropWhile (\<lambda>c. c = CHR ''/'') (rev url))"

text \<open>\<^verbatim>\<open>__init__\<close>\<close>

definition init :: "string \<Rightarrow> string \<Rightarrow> string \<Rightarrow> real \<Rightarrow> 'w sys \<Rightarrow> client \<times> 'w sys" where
  "init url auth_user auth_password tmo s =
     (let (l, s') = new_list [] s
      in (\<lparr>p_base_url = rstrip_slash url,
           p_auth = (auth_user, auth_password),
           p_client = \<lparr>base_url = rstrip_slash url, timeout = tmo\<rparr>,
           p_service = None,
           p_routes = l,
           p_heartbeat_thread = None,
           p_heartbeat_stop_event = False\<rparr>, s'))"

text \<open>
  \<^verbatim>\<open>_raise_for_status\<close>. The message is \<^verbatim>\<open>body.get("message", resp.text)\<close>; when
  \<^verbatim>\<open>resp.json()\<close> raises, or the body is not a dictionary (it has no \<^verbatim>\<open>get\<close>), the
  \<^verbatim>\<open>except\<close> branch takes \<^verbatim>\<open>resp.text\<close>.
\<close>

definition error_message :: "Response \<Rightarrow> json" where
  "error_message resp =
     (case resp_json resp of
        Some (JObj body) \<Rightarrow>
          (case map_of body ''message'' of Some m \<Rightarrow> m | None \<Rightarrow> JStr (resp_text resp))
      | _ \<Rightarrow> JStr (resp_text resp))"

definition p_raise_for_status :: "Response \<Rightarrow> exn + unit" where
  "p_raise_for_status resp =
     (if status_code resp = 200 then Inr ()
      else let message = error_message resp in
        if status_code resp = 401 then Inl (RinconAuthError message)
        else if status_code resp = 400 then Inl (RinconValidationError message)
        else if status_code resp = 404 then Inl (RinconNotFoundError message)
        else if status_code resp = 500 then Inl (RinconConflictError message)
        else Inl (RinconError message (Some (status_code resp))))"

text \<open>\<^verbatim>\<open>_request\<close>: one exchange, recorded in \<open>sent\<close>.\<close>

definition p_request ::
  "'w env \<Rightarrow> client \<Rightarrow> 'w sys \<Rightarrow> string \<Rightarrow> string \<Rightarrow> json option \<Rightarrow>
   (string \<times> string) list option \<Rightarrow> bool \<Rightarrow> (exn + Response) \<times> 'w sys" where
  "p_request env self s meth path js params auth =
     (let req = \<lparr>req_method = meth, req_path = path, req_params = params, req_json = js,
                 req_auth = (if auth then Some (p_auth self) else None)\<rparr>;
          (out, w) = transport env (p_client self) req (world s);
          s' = s\<lparr>world := w, sent := sent s @ [req]\<rparr>
      in case out of
           ConnectError \<Rightarrow>
             (Inl (RinconConnectionError
                     (JStr (''Failed to connect to Rincon at '' @ p_base_url self))), s')
         | TimeoutException \<Rightarrow>
             (Inl (RinconConnectionError (JStr (''Request to Rincon timed out: '' @ path))), s')
         | OtherTransportError \<Rightarrow> (Inl HTTPError, s')
         | Reply resp \<Rightarrow>
             (case p_raise_for_status resp of
                Inl e \<Rightarrow> (Inl e, s')
              | Inr _ \<Rightarrow> (Inr resp, s')))"

text \<open>
  \<^verbatim>\<open>Service.model_validate(resp.json())\<close> and \<^verbatim>\<open>Route.model_validate(data)\<close>. A
  validated Route is a new object.
\<close>

definition service_of_response :: "'w env \<Rightarrow> Response \<Rightarrow> exn + Service" where
  "service_of_response env resp =
     (case resp_json resp of
        None \<Rightarrow> Inl JSONDecodeError
      | Some data \<Rightarrow>
          (case Service_model_validate env data of
             None \<Rightarrow> Inl PydanticValidationError
           | Some sv \<Rightarrow> Inr sv))"

definition route_of_json :: "'w env \<Rightarrow> json \<Rightarrow> 'w sys \<Rightarrow> (exn + addr) \<times> 'w sys" where
  "route_of_json env data s =
     (case Route_model_validate env data of
        None \<Rightarrow> (Inl PydanticValidationError, s)
      | Some r \<Rightarrow> (let (a, s') = new_route r s in (Inr a, s')))"

text \<open>\<^verbatim>\<open>str\<close> of an integer, for \<^verbatim>\<open>f"/rincon/services/{service_id}"\<close>.\<close>

fun str_nat :: "nat \<Rightarrow> string" where
  "str_nat n =
     (if n < 10 then [''0123456789'' ! n]
      else str_nat (n div 10) @ [''0123456789'' ! (n mod 10)])"

declare str_nat.simps [simp del]

definition str_int :: "int \<Rightarrow> string" where
  "str_int i = (if i < 0 then CHR ''-'' # str_nat (nat (- i)) else str_nat (nat i))"

definition register_service ::
  "'w env \<Rightarrow> client \<Rightarrow> 'w sys \<Rightarrow> Service \<Rightarrow> (exn + Service) \<times> 'w sys" where
  "register_service env self s service =
     (case p_request env self s ''POST'' ''/rincon/services''
             (Some (service_model_dump service)) None True of
        (Inl e, s') \<Rightarrow> (Inl e, s')
      | (Inr resp, s') \<Rightarrow> (service_of_response env resp, s'))"

definition remove_service ::
  "'w env \<Rightarrow> client \<Rightarrow> 'w sys \<Rightarrow> int \<Rightarrow> (exn + unit) \<times> 'w sys" where
  "remove_service env self s sid =
     (case p_request env self s ''DELETE'' (''/rincon/services/'' @ str_int sid)
             None None True of
        (Inl e, s') \<Rightarrow> (Inl e, s')
      | (Inr resp, s') \<Rightarrow> (Inr (), s'))"

definition get_route ::
  "'w env \<Rightarrow> client \<Rightarrow> 'w sys \<Rightarrow> string \<Rightarrow> string option \<Rightarrow> string option \<Rightarrow>
   (exn + addr) \<times> 'w sys" where
  "get_route env self s rt meth service =
     (let params = [(''route'', rt)]
                   @ (case meth of None \<Rightarrow> [] | Some m \<Rightarrow> [(''method'', m)])
                   @ (case service of None \<Rightarrow> [] | Some sv \<Rightarrow> [(''service'', sv)])
      in case p_request env self s ''GET'' ''/rincon/routes'' None (Some params) False of
           (Inl e, s') \<Rightarrow> (Inl e, s')
         | (Inr resp, s') \<Rightarrow>
             (case resp_json resp of
                None \<Rightarrow> (Inl JSONDecodeError, s')
              | Some (JArr []) \<Rightarrow>
                  (Inl (RinconNotFoundError (JStr (''No route '' @ rt @ '' found''))), s')
              | Some (JArr (d # ds)) \<Rightarrow> route_of_json env d s'
              | Some data \<Rightarrow> route_of_json env data s'))"

text \<open>\<^verbatim>\<open>register_route\<close> dumps the Route object at \<open>rt\<close> as it is at the time of the call.\<close>

definition register_route ::
  "'w env \<Rightarrow> client \<Rightarrow> 'w sys \<Rightarrow> addr \<Rightarrow> (exn + addr) \<times> 'w sys" where
  "register_route env self s rt =
     (case p_request env self s ''POST'' ''/rincon/routes''
             (Some (route_model_dump (route_objs s rt))) None True of
        (Inl e, s') \<Rightarrow> (Inl e, s')
      | (Inr resp, s') \<Rightarrow>
          (case resp_json resp of
             None \<Rightarrow> (Inl JSONDecodeError, s')
           | Some data \<Rightarrow> route_of_json env data s'))"

definition match_route ::
  "'w env \<Rightarrow> client \<Rightarrow> 'w sys \<Rightarrow> string \<Rightarrow> string \<Rightarrow> (exn + Service) \<times> 'w sys" where
  "match_route env self s rt meth =
     (let rt' = (if take 1 rt = ''/'' then drop 1 rt else rt)
      in case p_request env self s ''GET'' ''/rincon/match'' None
                (Some [(''route'', rt'), (''method'', meth)]) False of
           (Inl e, s') \<Rightarrow> (Inl e, s')
         | (Inr resp, s') \<Rightarrow> (service_of_response env resp, s'))"

text \<open>
  The loop of \<^verbatim>\<open>register\<close>: each Route object of the caller is assigned the registered
  service's name, then registered, and the Route the server answered is appended to the
  session's list. An exception leaves the loop at once.
\<close>

definition set_service_name :: "addr \<Rightarrow> string \<Rightarrow> 'w sys \<Rightarrow> 'w sys" where
  "set_service_name rt nm s =
     s\<lparr>route_objs := (route_objs s)(rt := (route_objs s rt)\<lparr>service_name := nm\<rparr>)\<rparr>"

fun register_loop ::
  "'w env \<Rightarrow> client \<Rightarrow> Service \<Rightarrow> addr list \<Rightarrow> 'w sys \<Rightarrow> (exn + unit) \<times> 'w sys" where
  "register_loop env self registered_service [] s = (Inr (), s)"
| "register_loop env self registered_service (rt # rest) s =
     (case register_route env self (set_service_name rt (name registered_service) s) rt of
        (Inl e, s') \<Rightarrow> (Inl e, s')
      | (Inr registered_route, s') \<Rightarrow>
          register_loop env self registered_service rest
            (list_append (p_routes self) registered_route s'))"

definition register ::
  "'w env \<Rightarrow> client \<Rightarrow> 'w sys \<Rightarrow> Service \<Rightarrow> addr list option \<Rightarrow>
   (exn + Service) \<times> client \<times> 'w sys" where
  "register env self s service routes =
     (case register_service env self s service of
        (Inl e, s1) \<Rightarrow> (Inl e, self, s1)
      | (Inr registered_service, s1) \<Rightarrow>
          (let (l, s2) = new_list [] s1;
               self' = self\<lparr>p_service := Some registered_service, p_routes := l\<rparr>
           in case register_loop env self' registered_service
                     (case routes of None \<Rightarrow> [] | Some rts \<Rightarrow> rts) s2 of
                (Inl e, s3) \<Rightarrow> (Inl e, self', s3)
              | (Inr _, s3) \<Rightarrow> (Inr registered_service, self', s3)))"

text \<open>
  \<^verbatim>\<open>stop_heartbeat\<close>. After \<^verbatim>\<open>join(timeout=5.0)\<close> the thread has ended or not, as the
  environment says; the client forgets it in both cases.
\<close>

definition stop_heartbeat :: "'w env \<Rightarrow> client \<Rightarrow> 'w sys \<Rightarrow> client \<times> 'w sys" where
  "stop_heartbeat env self s =
     (case p_heartbeat_thread self of
        None \<Rightarrow> (self, s)
      | Some t \<Rightarrow>
          if \<not> is_alive (threads s t) then (self, s)
          else (self\<lparr>p_heartbeat_stop_event := True, p_heartbeat_thread := None\<rparr>,
                s\<lparr>threads := (threads s)(t := (threads s t)\<lparr>is_alive := \<not> join env (world s)\<rparr>)\<rparr>))"

definition no_service :: exn where
  "no_service = RinconError (JStr ''No service registered with this client'') None"

definition deregister :: "'w env \<Rightarrow> client \<Rightarrow> 'w sys \<Rightarrow> (exn + unit) \<times> client \<times> 'w sys" where
  "deregister env self s =
     (case p_service self of
        None \<Rightarrow> (Inl no_service, self, s)
      | Some sv \<Rightarrow>
          (let (self1, s1) = stop_heartbeat env self s
           in case remove_service env self1 s1 (service_id sv) of
                (Inl e, s2) \<Rightarrow> (Inl e, self1, s2)
              | (Inr _, s2) \<Rightarrow>
                  (let (l, s3) = new_list [] s2
                   in (Inr (), self1\<lparr>p_service := None, p_routes := l\<rparr>, s3))))"

text \<open>
  \<^verbatim>\<open>start_heartbeat\<close> creates the thread object and starts it. The body of the thread runs
  beside the caller and is not part of this sequential model: a thread is its entry in
  \<open>threads\<close>.
\<close>

definition start_heartbeat ::
  "'w env \<Rightarrow> client \<Rightarrow> 'w sys \<Rightarrow> real \<Rightarrow> (exn + unit) \<times> client \<times> 'w sys" where
  "start_heartbeat env self s ival =
     (case p_service self of
        None \<Rightarrow> (Inl no_service, self, s)
      | Some sv \<Rightarrow>
          if (case p_heartbeat_thread self of
                None \<Rightarrow> False
              | Some t \<Rightarrow> is_alive (threads s t))
          then (Inr (), self, s)
          else (let t = next_thread s
                in (Inr (),
                    self\<lparr>p_heartbeat_stop_event := False, p_heartbeat_thread := Some t\<rparr>,
                    s\<lparr>threads := (threads s)(t := \<lparr>is_alive = True, interval = ival\<rparr>),
                      next_thread := Suc t\<rparr>)))"

subsection \<open>The attributes of a client\<close>

text \<open>
  The names that \<^verbatim>\<open>client.name\<close> resolves for a \<^verbatim>\<open>RinconClient\<close>: the names bound in the
  class body, in their order there, and the attributes that \<^verbatim>\<open>__init__\<close> assigns. The
  class has no base class but \<^verbatim>\<open>object\<close> and defines no \<^verbatim>\<open>__getattr__\<close>, so any other
  name that \<^verbatim>\<open>object\<close> does not provide raises \<^verbatim>\<open>AttributeError\<close>.
\<close>

definition class_attributes :: "string list" where
  "class_attributes =
     [''__init__'', ''close'', ''__enter__'', ''__exit__'', ''_request'',
      ''_raise_for_status'', ''ping'', ''get_all_services'', ''get_services_by_name'',
      ''get_service_by_id'', ''register_service'', ''remove_service'', ''get_all_routes'',
      ''get_routes_for_service'', ''get_route'', ''get_routes_by_path'', ''register_route'',
      ''match_route'', ''register'', ''deregister'', ''start_heartbeat'', ''stop_heartbeat'']"

definition instance_attributes :: "string list" where
  "instance_attributes =
     [''_base_url'', ''_auth'', ''_client'', ''_service'', ''_routes'',
      ''_heartbeat_thread'', ''_heartbeat_stop_event'']"

definition has_attribute :: "string \<Rightarrow> bool" where
  "has_attribute nm = (nm \<in> set (class_attributes @ instance_attributes))"

subsection \<open>The requests of the HTTP contract\<close>

text \<open>The requests that the operations below are stated with, as Request values.\<close>

definition POST_services :: "client \<Rightarrow> Service \<Rightarrow> Request" where
  "POST_services self sv =
     \<lparr>req_method = ''POST'', req_path = ''/rincon/services'', req_params = None,
      req_json = Some (service_model_dump sv), req_auth = Some (p_auth self)\<rparr>"

definition POST_routes :: "client \<Rightarrow> Route \<Rightarrow> Request" where
  "POST_routes self r =
     \<lparr>req_method = ''POST'', req_path = ''/rincon/routes'', req_params = None,
      req_json = Some (route_model_dump r), req_auth = Some (p_auth self)\<rparr>"

definition DELETE_services :: "client \<Rightarrow> int \<Rightarrow> Request" where
  "DELETE_services self sid =
     \<lparr>req_method = ''DELETE'', req_path = ''/rincon/services/'' @ str_int sid,
      req_params = None, req_json = None, req_auth = Some (p_auth self)\<rparr>"

definition GET_routes :: "(string \<times> string) list \<Rightarrow> Request" where
  "GET_routes params =
     \<lparr>req_method = ''GET'', req_path = ''/rincon/routes'', req_params = Some params,
      req_json = None, req_auth = None\<rparr>"

text \<open>The query parameters of \<^verbatim>\<open>get_route\<close>: the route, then the filters that are given.\<close>

definition route_params :: "string \<Rightarrow> string option \<Rightarrow> string option \<Rightarrow> (string \<times> string) list" where
  "route_params rt meth sv =
     (''route'', rt)
     # (case meth of None \<Rightarrow> [] | Some m \<Rightarrow> [(''method'', m)])
     @ (case sv of None \<Rightarrow> [] | Some n \<Rightarrow> [(''service'', n)])"

definition GET_match :: "string \<Rightarrow> string \<Rightarrow> Request" where
  "GET_match rt meth =
     \<lparr>req_method = ''GET'', req_path = ''/rincon/match'',
      req_params = Some [(''route'', rt), (''method'', meth)],
      req_json = None, req_auth = None\<rparr>"

subsection \<open>The registration flow in the words of the spec\<close>

text \<open>
  The spec describes \<^verbatim>\<open>register\<close> on Route records, with no objects or references:
  "for each supplied route (in order) sets its \<^verbatim>\<open>service_name\<close> to the registered
  service's name and calls \<^verbatim>\<open>registerRoute\<close>, collecting results into the session's
  current route list in the same order", and a failure "propagates immediately".
  \<open>spec_register_route\<close> is \<^verbatim>\<open>registerRoute\<close> on a record: it "submits the route sans
  identity/created_at" and "returns the server's canonical Route".
  \<open>spec_register_routes\<close> gives the routes collected and the exception that ended the
  flow, if any.
\<close>

definition spec_register_route ::
  "'w env \<Rightarrow> client \<Rightarrow> Route \<Rightarrow> 'w sys \<Rightarrow> (exn + Route) \<times> 'w sys" where
  "spec_register_route env self r s =
     (case p_request env self s ''POST'' ''/rincon/routes''
             (Some (route_model_dump r)) None True of
        (Inl e, s') \<Rightarrow> (Inl e, s')
      | (Inr resp, s') \<Rightarrow>
          (case resp_json resp of
             None \<Rightarrow> (Inl JSONDecodeError, s')
           | Some data \<Rightarrow>
               (case Route_model_validate env data of
                  None \<Rightarrow> (Inl PydanticValidationError, s')
                | Some r' \<Rightarrow> (Inr r', s'))))"

fun spec_register_routes ::
  "'w env \<Rightarrow> client \<Rightarrow> string \<Rightarrow> Route list \<Rightarrow> 'w sys \<Rightarrow> Route list \<times> exn option" where
  "spec_register_routes env self nm [] s = ([], None)"
| "spec_register_routes env self nm (r # rs) s =
     (case spec_register_route env self (r\<lparr>service_name := nm\<rparr>) s of
        (Inl e, s') \<Rightarrow> ([], Some e)
      | (Inr r', s') \<Rightarrow>
          (case spec_register_routes env self nm rs s' of
             (good, err) \<Rightarrow> (r' # good, err)))"

subsection \<open>A scripted registry for concrete runs\<close>

text \<open>
  The environment of the concrete runs below, after the mocked transport of
  \<^verbatim>\<open>tests/test_client.py\<close>: the world is the list of outcomes still to be played, and a
  request takes the first one (a connection error when none is left). The validators
  stand in for pydantic on the bodies of the tests and are stricter than it: they accept
  an object whose fields have the declared JSON types, with the defaults of
  \<^verbatim>\<open>models.py\<close> for a missing \<^verbatim>\<open>id\<close>, coerce nothing, and keep a timestamp as the
  string it is without parsing it. The theorems hold for every environment; only the
  concrete runs use this one.
\<close>

definition scripted :: "httpx_client \<Rightarrow> Request \<Rightarrow> outcome list \<Rightarrow> outcome \<times> outcome list" where
  "scripted hc req w = (case w of [] \<Rightarrow> (ConnectError, []) | out # rest \<Rightarrow> (out, rest))"

definition str_field :: "(string \<times> json) list \<Rightarrow> string \<Rightarrow> string option" where
  "str_field kvs k = (case map_of kvs k of Some (JStr v) \<Rightarrow> Some v | _ \<Rightarrow> None)"

definition validate_service :: "json \<Rightarrow> Service option" where
  "validate_service j =
     (case j of
        JObj kvs \<Rightarrow>
          (case (case map_of kvs ''id'' of
                   None \<Rightarrow> Some 0 | Some (JInt i) \<Rightarrow> Some i | _ \<Rightarrow> None,
                 str_field kvs ''name'', str_field kvs ''version'',
                 str_field kvs ''endpoint'', str_field kvs ''health_check'') of
             (Some i, Some n, Some v, Some e, Some h) \<Rightarrow>
               Some \<lparr>service_id = i, name = n, version = v, endpoint = e, health_check = h,
                     updated_at = str_field kvs ''updated_at'',
                     service_created_at = str_field kvs ''created_at''\<rparr>
           | _ \<Rightarrow> None)
      | _ \<Rightarrow> None)"

definition validate_route :: "json \<Rightarrow> Route option" where
  "validate_route j =
     (case j of
        JObj kvs \<Rightarrow>
          (case (case map_of kvs ''id'' of
                   None \<Rightarrow> Some [] | Some (JStr i) \<Rightarrow> Some i | _ \<Rightarrow> None,
                 str_field kvs ''route'', str_field kvs ''method'',
                 str_field kvs ''service_name'') of
             (Some i, Some r, Some m, Some n) \<Rightarrow>
               Some \<lparr>route_id = i, route = r, route_method = m, service_name = n,
                     created_at = str_field kvs ''created_at''\<rparr>
           | _ \<Rightarrow> None)
      | _ \<Rightarrow> None)"

definition test_env :: "outcome list env" where
  "test_env = \<lparr>transport = scripted, Service_model_validate = validate_service,
                Route_model_validate = validate_route, join = (\<lambda>w. True)\<rparr>"

text \<open>A 200 response with the given JSON body, and an error response with a message.\<close>

definition ok :: "json \<Rightarrow> outcome" where
  "ok j = Reply \<lparr>status_code = 200, resp_text = ''body'', resp_json = Some j\<rparr>"

definition failed :: "int \<Rightarrow> string \<Rightarrow> outcome" where
  "failed code msg =
     Reply \<lparr>status_code = code, resp_text = ''body'',
            resp_json = Some (JObj [(''message'', JStr msg)])\<rparr>"

text \<open>\<^verbatim>\<open>SAMPLE_SERVICE\<close> and \<^verbatim>\<open>SAMPLE_ROUTE\<close> of \<^verbatim>\<open>tests/conftest.py\<close>.\<close>

definition SAMPLE_SERVICE :: json where
  "SAMPLE_SERVICE =
     JObj [(''id'', JInt 820522), (''name'', JStr ''service_a''), (''version'', JStr ''1.0.0''),
           (''endpoint'', JStr ''http://localhost:8080''),
           (''health_check'', JStr ''http://localhost:8080/health''),
           (''updated_at'', JStr ''2024-08-04T19:32:40.109239344-07:00''),
           (''created_at'', JStr ''2024-08-04T19:32:40.109239386-07:00'')]"

definition SAMPLE_ROUTE :: json where
  "SAMPLE_ROUTE =
     JObj [(''id'', JStr ''/users-[GET,POST]''), (''route'', JStr ''/users''),
           (''method'', JStr ''GET,POST''), (''service_name'', JStr ''service_a''),
           (''created_at'', JStr ''2024-08-04T19:32:40.109239344-07:00'')]"

definition service_a :: Service where
  "service_a =
     \<lparr>service_id = 820522, name = ''service_a'', version = ''1.0.0'',
      endpoint = ''http://localhost:8080'', health_check = ''http://localhost:8080/health'',
      updated_at = Some ''2024-08-04T19:32:40.109239344-07:00'',
      service_created_at = Some ''2024-08-04T19:32:40.109239386-07:00''\<rparr>"

definition users_route :: Route where
  "users_route =
     \<lparr>route_id = ''/users-[GET,POST]'', route = ''/users'', route_method = ''GET,POST'',
      service_name = ''service_a'',
      created_at = Some ''2024-08-04T19:32:40.109239344-07:00''\<rparr>"

text \<open>
  The caller's objects: the Service passed to \<^verbatim>\<open>register\<close>, and two Route objects at the
  addresses 0 and 1, the first with a blank \<^verbatim>\<open>service_name\<close> and the second with the
  name of another service.
\<close>

definition new_service :: Service where
  "new_service =
     \<lparr>service_id = 0, name = ''Service A'', version = ''1.0.0'',
      endpoint = ''http://localhost:8080'', health_check = ''http://localhost:8080/health'',
      updated_at = None, service_created_at = None\<rparr>"

definition blank_route :: Route where
  "blank_route =
     \<lparr>route_id = [], route = ''/users'', route_method = ''GET,POST'', service_name = [],
      created_at = None\<rparr>"

definition named_route :: Route where
  "named_route =
     \<lparr>route_id = [], route = ''/orders'', route_method = ''GET'', service_name = ''other'',
      created_at = None\<rparr>"

definition test_sys :: "outcome list \<Rightarrow> outcome list sys" where
  "test_sys script =
     \<lparr>world = script, sent = [],
      route_objs = (\<lambda>a. if a = 0 then blank_route else named_route), next_route = 2,
      list_objs = (\<lambda>a. []), next_list = 0,
      threads = (\<lambda>a. \<lparr>is_alive = False, interval = 0\<rparr>), next_thread = 0\<rparr>"

text \<open>The client of the tests, \<^verbatim>\<open>RinconClient(url="http://localhost:10311")\<close>.\<close>

definition test_client :: client where
  "test_client = fst (init ''http://localhost:10311'' ''admin'' ''admin'' 10 (test_sys []))"

definition test_start :: "outcome list \<Rightarrow> outcome list sys" where
  "test_start script = snd (init ''http://localhost:10311'' ''admin'' ''admin'' 10 (test_sys script))"

text \<open>
  The client and the store after \<^verbatim>\<open>register(new_service, [route 0])\<close> has returned, with
  \<open>script\<close> left to be played.
\<close>

definition registered_client :: client where
  "registered_client =
     fst (snd (register test_env test_client (test_start [ok SAMPLE_SERVICE, ok SAMPLE_ROUTE])
                 new_service (Some [0])))"

definition registered_sys :: "outcome list \<Rightarrow> outcome list sys" where
  "registered_sys script =
     snd (snd (register test_env test_client
                 (test_start ([ok SAMPLE_SERVICE, ok SAMPLE_ROUTE] @ script))
                 new_service (Some [0])))"

section \<open>Properties\<close>

subsection \<open>What one request and one registration change\<close>

lemmas exn_defs = RinconError_def RinconConnectionError_def RinconAuthError_def
  RinconNotFoundError_def RinconValidationError_def RinconConflictError_def

lemma p_request_state:
  "snd (p_request env self s meth path js params auth) =
     s\<lparr>world := snd (transport env (p_client self)
                        \<lparr>req_method = meth, req_path = path, req_params = params,
                         req_json = js,
                         req_auth = (if auth then Some (p_auth self) else None)\<rparr> (world s)),
       sent := sent s @ [\<lparr>req_method = meth, req_path = path, req_params = params,
                          req_json = js,
                          req_auth = (if auth then Some (p_auth self) else None)\<rparr>]\<rparr>"
  by (simp add: p_request_def Let_def split: prod.splits outcome.splits sum.splits)

lemma p_request_result:
  "fst (p_request env self s meth path js params auth) =
     (case fst (transport env (p_client self)
                  \<lparr>req_method = meth, req_path = path, req_params = params, req_json = js,
                   req_auth = (if auth then Some (p_auth self) else None)\<rparr> (world s)) of
        ConnectError \<Rightarrow>
          Inl (Exn Connection (JStr (''Failed to connect to Rincon at '' @ p_base_url self)) None)
      | TimeoutException \<Rightarrow>
          Inl (Exn Connection (JStr (''Request to Rincon timed out: '' @ path)) None)
      | OtherTransportError \<Rightarrow> Inl HTTPError
      | Reply resp \<Rightarrow>
          (case p_raise_for_status resp of Inl e \<Rightarrow> Inl e | Inr u \<Rightarrow> Inr resp))"
  by (simp add: p_request_def Let_def RinconConnectionError_def
           split: prod.splits outcome.splits sum.splits)

lemma register_route_effect:
  assumes "register_route env self s rt = (res, s')"
  shows "sent s' = sent s @ [POST_routes self (route_objs s rt)]"
    and "list_objs s' = list_objs s" and "next_list s' = next_list s"
    and "threads s' = threads s" and "next_thread s' = next_thread s"
    and "\<And>e. res = Inl e \<Longrightarrow> route_objs s' = route_objs s \<and> next_route s' = next_route s"
    and "\<And>a. res = Inr a \<Longrightarrow> a = next_route s \<and> next_route s' = Suc a \<and>
            (\<forall>b. b \<noteq> a \<longrightarrow> route_objs s' b = route_objs s b)"
  using assms
  by (auto simp: register_route_def route_of_json_def new_route_def POST_routes_def
        p_request_def Let_def
      split: prod.splits sum.splits option.splits outcome.splits)


lemma set_service_name_sel [simp]:
  "route_objs (set_service_name rt nm s) = (route_objs s)(rt := (route_objs s rt)\<lparr>service_name := nm\<rparr>)"
  "next_route (set_service_name rt nm s) = next_route s"
  "list_objs (set_service_name rt nm s) = list_objs s"
  "next_list (set_service_name rt nm s) = next_list s"
  "sent (set_service_name rt nm s) = sent s"
  "world (set_service_name rt nm s) = world s"
  "threads (set_service_name rt nm s) = threads s"
  "next_thread (set_service_name rt nm s) = next_thread s"
  by (simp_all add: set_service_name_def)

lemma list_append_sel [simp]:
  "route_objs (list_append l x s) = route_objs s"
  "next_route (list_append l x s) = next_route s"
  "list_objs (list_append l x s) = (list_objs s)(l := list_objs s l @ [x])"
  "next_list (list_append l x s) = next_list s"
  "sent (list_append l x s) = sent s"
  "world (list_append l x s) = world s"
  "threads (list_append l x s) = threads s"
  "next_thread (list_append l x s) = next_thread s"
  by (simp_all add: list_append_def)

lemma register_loop_effect:
  assumes "register_loop env self rs rts s = (res, s')"
      and "\<forall>a\<in>set rts. a < next_route s"
  shows "\<exists>k\<le>length rts.
           (res = Inr () \<longrightarrow> k = length rts) \<and>
           (\<forall>a<next_route s. route_objs s' a =
              (if a \<in> set (take k rts) then (route_objs s a)\<lparr>service_name := name rs\<rparr>
               else route_objs s a)) \<and>
           sent s' = sent s @
              map (\<lambda>a. POST_routes self ((route_objs s a)\<lparr>service_name := name rs\<rparr>))
                (take k rts) \<and>
           next_route s \<le> next_route s'"
  using assms
proof (induction rts arbitrary: s)
  case Nil
  then show ?case by simp
next
  case (Cons rt rest)
  define s0 where "s0 = set_service_name rt (name rs) s"
  obtain res1 s1 where rr: "register_route env self s0 rt = (res1, s1)"
    by (cases "register_route env self s0 rt")
  note eff = register_route_effect [OF rr]
  show ?case
  proof (cases res1)
    case (Inl e)
    with Cons.prems(1) rr have res: "res = Inl e" and s': "s' = s1"
      by (simp_all add: s0_def)
    from eff(6) [OF Inl] have "route_objs s1 = route_objs s0" "next_route s1 = next_route s0"
      by simp_all
    then have "(res = Inr () \<longrightarrow> Suc 0 = length (rt # rest)) \<and>
           (\<forall>a<next_route s. route_objs s' a =
              (if a \<in> set (take (Suc 0) (rt # rest))
               then (route_objs s a)\<lparr>service_name := name rs\<rparr>
               else route_objs s a)) \<and>
           sent s' = sent s @
              map (\<lambda>a. POST_routes self ((route_objs s a)\<lparr>service_name := name rs\<rparr>))
                (take (Suc 0) (rt # rest)) \<and>
           next_route s \<le> next_route s'"
      using eff(1) res s' by (simp add: s0_def)
    then show ?thesis by (intro exI [of _ "Suc 0"]) simp
  next
    case (Inr a)
    with Cons.prems(1) rr
    have rest: "register_loop env self rs rest (list_append (p_routes self) a s1) = (res, s')"
      by (simp add: s0_def)
    from eff(7) [OF Inr] have a: "a = next_route s" "next_route s1 = Suc (next_route s)"
      and same: "\<And>b. b \<noteq> a \<Longrightarrow> route_objs s1 b = route_objs s0 b"
      by (simp_all add: s0_def)
    have wf: "\<forall>b\<in>set rest. b < next_route (list_append (p_routes self) a s1)"
      using Cons.prems(2) a by auto
    from Cons.IH [OF rest wf] obtain k where k: "k \<le> length rest"
      and full: "res = Inr () \<longrightarrow> k = length rest"
      and objs0: "\<forall>b<next_route (list_append (p_routes self) a s1). route_objs s' b =
              (if b \<in> set (take k rest)
               then (route_objs (list_append (p_routes self) a s1) b)\<lparr>service_name := name rs\<rparr>
               else route_objs (list_append (p_routes self) a s1) b)"
      and sent0: "sent s' = sent (list_append (p_routes self) a s1) @
              map (\<lambda>b. POST_routes self
                     ((route_objs (list_append (p_routes self) a s1) b)\<lparr>service_name := name rs\<rparr>))
                (take k rest)"
      and le0: "next_route (list_append (p_routes self) a s1) \<le> next_route s'"
      by blast
    from objs0 a have objs': "\<forall>b<Suc (next_route s). route_objs s' b =
              (if b \<in> set (take k rest) then (route_objs s1 b)\<lparr>service_name := name rs\<rparr>
               else route_objs s1 b)"
      by simp
    from sent0 have sent': "sent s' = sent s1 @
              map (\<lambda>b. POST_routes self ((route_objs s1 b)\<lparr>service_name := name rs\<rparr>))
                (take k rest)"
      by simp
    from le0 a have le: "Suc (next_route s) \<le> next_route s'"
      by simp
    have below: "route_objs s1 b = route_objs s0 b" if "b < next_route s" for b
      using same [of b] that a by simp
    have objs: "\<forall>b<next_route s. route_objs s' b =
            (if b \<in> set (take (Suc k) (rt # rest))
             then (route_objs s b)\<lparr>service_name := name rs\<rparr>
             else route_objs s b)"
    proof (intro allI impI)
      fix b assume b: "b < next_route s"
      with objs' have "route_objs s' b =
          (if b \<in> set (take k rest) then (route_objs s1 b)\<lparr>service_name := name rs\<rparr>
           else route_objs s1 b)"
        by simp
      then show "route_objs s' b =
            (if b \<in> set (take (Suc k) (rt # rest))
             then (route_objs s b)\<lparr>service_name := name rs\<rparr>
             else route_objs s b)"
        using below [OF b] by (auto simp: s0_def)
    qed
    have reqs: "map (\<lambda>b. POST_routes self ((route_objs s1 b)\<lparr>service_name := name rs\<rparr>))
                  (take k rest) =
                map (\<lambda>b. POST_routes self ((route_objs s b)\<lparr>service_name := name rs\<rparr>))
                  (take k rest)"
    proof (rule map_cong [OF refl])
      fix b assume "b \<in> set (take k rest)"
      then have "b \<in> set rest" by (rule in_set_takeD)
      then have "b < next_route s" using Cons.prems(2) by simp
      from below [OF this]
      show "POST_routes self ((route_objs s1 b)\<lparr>service_name := name rs\<rparr>) =
            POST_routes self ((route_objs s b)\<lparr>service_name := name rs\<rparr>)"
        by (simp add: s0_def)
    qed
    have "sent s' = sent s @
        map (\<lambda>b. POST_routes self ((route_objs s b)\<lparr>service_name := name rs\<rparr>))
          (take (Suc k) (rt # rest))"
      using sent' eff(1) reqs by (simp add: s0_def)
    moreover have "next_route s \<le> next_route s'" using le by simp
    moreover have "Suc k \<le> length (rt # rest)" using k by simp
    moreover have "res = Inr () \<longrightarrow> Suc k = length (rt # rest)" using full by simp
    ultimately show ?thesis using objs by blast
  qed
qed

lemma register_service_effect:
  assumes "register_service env self s sv = (res, s')"
  shows "sent s' = sent s @ [POST_services self sv]"
    and "route_objs s' = route_objs s" and "next_route s' = next_route s"
    and "list_objs s' = list_objs s" and "next_list s' = next_list s"
    and "threads s' = threads s" and "next_thread s' = next_thread s"
  using assms
  by (auto simp: register_service_def POST_services_def p_request_def Let_def
      split: prod.splits sum.splits outcome.splits)

lemma new_list_sel [simp]:
  "fst (new_list xs s) = next_list s"
  "route_objs (snd (new_list xs s)) = route_objs s"
  "next_route (snd (new_list xs s)) = next_route s"
  "list_objs (snd (new_list xs s)) = (list_objs s)(next_list s := xs)"
  "next_list (snd (new_list xs s)) = Suc (next_list s)"
  "sent (snd (new_list xs s)) = sent s"
  "world (snd (new_list xs s)) = world s"
  "threads (snd (new_list xs s)) = threads s"
  "next_thread (snd (new_list xs s)) = next_thread s"
  by (simp_all add: new_list_def)

lemma register_unfold:
  "register env self s sv ropt =
     (case register_service env self s sv of
        (Inl e, s1) \<Rightarrow> (Inl e, self, s1)
      | (Inr rs, s1) \<Rightarrow>
          (case register_loop env (self\<lparr>p_service := Some rs, p_routes := next_list s1\<rparr>) rs
                  (case ropt of None \<Rightarrow> [] | Some rts \<Rightarrow> rts) (snd (new_list [] s1)) of
             (Inl e, s3) \<Rightarrow> (Inl e, self\<lparr>p_service := Some rs, p_routes := next_list s1\<rparr>, s3)
           | (Inr u, s3) \<Rightarrow> (Inr rs, self\<lparr>p_service := Some rs, p_routes := next_list s1\<rparr>, s3)))"
  by (simp add: register_def new_list_def Let_def split: prod.splits sum.splits)

lemma POST_routes_self [simp]:
  "POST_routes (self\<lparr>p_service := x, p_routes := y\<rparr>) r = POST_routes self r"
  by (simp add: POST_routes_def)

subsection \<open>Status codes and the error taxonomy\<close>

text \<open>
  C1. A response with status 200 raises nothing. A response with any other status raises:
  the auth error for 401, the validation error for 400, the not-found error for 404, the
  conflict error for 500, each with the message of the server; for every other status the
  generic error with that message and that very status code. The message of the server
  is the \<^verbatim>\<open>"message"\<close> entry of the JSON body when the body is an object that has one,
  and the raw text of the response otherwise.
\<close>

theorem raise_for_status_taxonomy:
  "(status_code resp = 200 \<longrightarrow> p_raise_for_status resp = Inr ()) \<and>
   (status_code resp = 401 \<longrightarrow>
      p_raise_for_status resp = Inl (Exn Auth (error_message resp) (Some 401))) \<and>
   (status_code resp = 400 \<longrightarrow>
      p_raise_for_status resp = Inl (Exn Validation (error_message resp) (Some 400))) \<and>
   (status_code resp = 404 \<longrightarrow>
      p_raise_for_status resp = Inl (Exn NotFound (error_message resp) (Some 404))) \<and>
   (status_code resp = 500 \<longrightarrow>
      p_raise_for_status resp = Inl (Exn Conflict (error_message resp) (Some 500))) \<and>
   (status_code resp \<notin> {200, 401, 400, 404, 500} \<longrightarrow>
      p_raise_for_status resp = Inl (Exn Base (error_message resp) (Some (status_code resp)))) \<and>
   (\<forall>body m. resp_json resp = Some (JObj body) \<and> map_of body ''message'' = Some m \<longrightarrow>
      error_message resp = m) \<and>
   ((\<nexists>body m. resp_json resp = Some (JObj body) \<and> map_of body ''message'' = Some m) \<longrightarrow>
      error_message resp = JStr (resp_text resp))"
proof -
  have msg: "error_message resp = JStr (resp_text resp)"
    if "\<nexists>body m. resp_json resp = Some (JObj body) \<and> map_of body ''message'' = Some m"
    using that by (auto simp: error_message_def split: option.splits json.splits)
  show ?thesis
    using msg by (simp add: p_raise_for_status_def exn_defs error_message_def)
qed

theorem raise_for_status_taxonomy_witness:
  "p_raise_for_status \<lparr>status_code = 200, resp_text = ''[]'', resp_json = Some (JArr [])\<rparr>
     = Inr () \<and>
   p_raise_for_status
     \<lparr>status_code = 401, resp_text = ''message: Invalid credentials'',
      resp_json = Some (JObj [(''message'', JStr ''Invalid credentials'')])\<rparr>
     = Inl (Exn Auth (JStr ''Invalid credentials'') (Some 401)) \<and>
   p_raise_for_status
     \<lparr>status_code = 400, resp_text = ''message: Service name is required'',
      resp_json = Some (JObj [(''message'', JStr ''Service name is required'')])\<rparr>
     = Inl (Exn Validation (JStr ''Service name is required'') (Some 400)) \<and>
   p_raise_for_status
     \<lparr>status_code = 404, resp_text = ''message: No service with id 999999 found'',
      resp_json = Some (JObj [(''message'', JStr ''No service with id 999999 found'')])\<rparr>
     = Inl (Exn NotFound (JStr ''No service with id 999999 found'') (Some 404)) \<and>
   p_raise_for_status
     \<lparr>status_code = 500, resp_text = ''message: route overlaps with existing routes'',
      resp_json = Some (JObj [(''message'', JStr ''route overlaps with existing routes'')])\<rparr>
     = Inl (Exn Conflict (JStr ''route overlaps with existing routes'') (Some 500)) \<and>
   p_raise_for_status
     \<lparr>status_code = 503, resp_text = ''Service unavailable'', resp_json = None\<rparr>
     = Inl (Exn Base (JStr ''Service unavailable'') (Some 503))"
  using
    raise_for_status_taxonomy
      [of "\<lparr>status_code = 200, resp_text = ''[]'', resp_json = Some (JArr [])\<rparr>"]
    raise_for_status_taxonomy
      [of "\<lparr>status_code = 401, resp_text = ''message: Invalid credentials'',
            resp_json = Some (JObj [(''message'', JStr ''Invalid credentials'')])\<rparr>"]
    raise_for_status_taxonomy
      [of "\<lparr>status_code = 400, resp_text = ''message: Service name is required'',
            resp_json = Some (JObj [(''message'', JStr ''Service name is required'')])\<rparr>"]
    raise_for_status_taxonomy
      [of "\<lparr>status_code = 404,
            resp_text = ''message: No service with id 999999 found'',
            resp_json = Some (JObj [(''message'', JStr ''No service with id 999999 found'')])\<rparr>"]
    raise_for_status_taxonomy
      [of "\<lparr>status_code = 500,
            resp_text = ''message: route overlaps with existing routes'',
            resp_json = Some (JObj [(''message'', JStr ''route overlaps with existing routes'')])\<rparr>"]
    raise_for_status_taxonomy
      [of "\<lparr>status_code = 503, resp_text = ''Service unavailable'', resp_json = None\<rparr>"]
  by simp

subsection \<open>Concrete runs\<close>

text \<open>The definitions that a concrete run unfolds.\<close>

lemmas run_defs = register_def register_service_def register_route_def p_request_def
  p_raise_for_status_def error_message_def service_of_response_def route_of_json_def
  new_route_def new_list_def list_append_def set_service_name_def
  service_model_dump_def route_model_dump_def exn_defs
  test_env_def scripted_def validate_service_def validate_route_def str_field_def
  ok_def failed_def SAMPLE_SERVICE_def SAMPLE_ROUTE_def test_sys_def test_client_def
  test_start_def init_def rstrip_slash_def service_a_def Let_def


subsection \<open>The service name of the routes that register submits\<close>


text \<open>
  C3, as amended. Once the service is registered, the requests of \<^verbatim>\<open>register\<close> are the
  registration of the service followed by the registrations of the first \<open>k\<close> supplied
  routes, each submitted with \<^verbatim>\<open>service_name\<close> set to the registered service's name
  whether the caller left it blank or not; \<open>k\<close> is the number of all supplied routes when
  the call returns. The addresses of the caller's Route objects are allocated ones.
\<close>

theorem register_submits_registered_name:
  assumes "register_service env self s sv = (Inr rs, s1)"
      and "\<forall>a\<in>set rts. a < next_route s"
      and "register env self s sv (Some rts) = (res, self', s')"
  shows "\<exists>k\<le>length rts.
           sent s' = sent s @ POST_services self sv #
              map (\<lambda>a. POST_routes self ((route_objs s a)\<lparr>service_name := name rs\<rparr>))
                (take k rts) \<and>
           (res = Inr rs \<longrightarrow> k = length rts)"
proof -
  define self1 where "self1 = self\<lparr>p_service := Some rs, p_routes := next_list s1\<rparr>"
  obtain r3 s3 where loop: "register_loop env self1 rs rts (snd (new_list [] s1)) = (r3, s3)"
    by (cases "register_loop env self1 rs rts (snd (new_list [] s1))")
  from assms(1,3) loop have s': "s' = s3" and res: "res = Inr rs \<Longrightarrow> r3 = Inr ()"
    by (auto simp: register_unfold self1_def split: sum.splits)
  note eff = register_service_effect [OF assms(1)]
  have wf: "\<forall>a\<in>set rts. a < next_route (snd (new_list [] s1))"
    using assms(2) eff(3) by simp
  from register_loop_effect [OF loop wf] obtain k where "k \<le> length rts"
    "r3 = Inr () \<longrightarrow> k = length rts"
    "sent s3 = sent s1 @
       map (\<lambda>a. POST_routes self ((route_objs s a)\<lparr>service_name := name rs\<rparr>)) (take k rts)"
    using eff(2) by (auto simp: self1_def)
  then show ?thesis using eff(1) s' res by auto
qed




text \<open>
  Two routes, one with a blank and one with a foreign \<^verbatim>\<open>service_name\<close>: three requests,
  both routes submitted under the registered name.
\<close>

theorem register_submits_registered_name_witness:
  "fst (register_service test_env test_client
          (test_start [ok SAMPLE_SERVICE, ok SAMPLE_ROUTE, ok SAMPLE_ROUTE]) new_service)
     = Inr service_a \<and>
   next_route (test_start [ok SAMPLE_SERVICE, ok SAMPLE_ROUTE, ok SAMPLE_ROUTE]) = 2 \<and>
   fst (register test_env test_client
          (test_start [ok SAMPLE_SERVICE, ok SAMPLE_ROUTE, ok SAMPLE_ROUTE])
          new_service (Some [0, 1])) = Inr service_a \<and>
   sent (snd (snd (register test_env test_client
          (test_start [ok SAMPLE_SERVICE, ok SAMPLE_ROUTE, ok SAMPLE_ROUTE])
          new_service (Some [0, 1])))) =
     [POST_services test_client new_service,
      POST_routes test_client (blank_route\<lparr>service_name := ''service_a''\<rparr>),
      POST_routes test_client (named_route\<lparr>service_name := ''service_a''\<rparr>)]"
proof -
  let ?s = "test_start [ok SAMPLE_SERVICE, ok SAMPLE_ROUTE, ok SAMPLE_ROUTE]"
  let ?run = "register test_env test_client ?s new_service (Some [0, 1])"
  let ?rsv = "register_service test_env test_client ?s new_service"
  have rsv: "fst ?rsv = Inr service_a"
    by (simp add: run_defs)
  then have h1: "?rsv = (Inr service_a, snd ?rsv)"
    by (simp add: prod_eq_iff)
  have res: "fst ?run = Inr service_a"
    by (simp add: run_defs)
  then have h3: "?run = (Inr service_a, fst (snd ?run), snd (snd ?run))"
    by (simp add: prod_eq_iff)
  have nr: "next_route ?s = 2"
    by (simp add: test_start_def init_def new_list_def test_sys_def)
  then have wf: "\<forall>a\<in>set [0, 1]. a < next_route ?s"
    by simp
  have objs: "route_objs ?s 0 = blank_route" "route_objs ?s 1 = named_route" "sent ?s = []"
    by (simp_all add: test_start_def init_def new_list_def test_sys_def)
  from register_submits_registered_name [OF h1 wf h3] rsv res nr objs
  show ?thesis by (auto simp: service_a_def)
qed

text \<open>
  C3 as the spec states it fails: the route at address 1 is supplied with the
  \<^verbatim>\<open>service_name\<close> \<^verbatim>\<open>"other"\<close>, and the body submitted for it carries
  \<^verbatim>\<open>"service_a"\<close>, the name of the registered service, not the caller's value.
\<close>

theorem register_keeps_caller_name_counterexample:
  "service_name (route_objs
      (test_start [ok SAMPLE_SERVICE, ok SAMPLE_ROUTE, ok SAMPLE_ROUTE]) 1) = ''other'' \<and>
   map req_json (sent (snd (snd (register test_env test_client
          (test_start [ok SAMPLE_SERVICE, ok SAMPLE_ROUTE, ok SAMPLE_ROUTE])
          new_service (Some [0, 1]))))) =
     [Some (JObj [(''name'', JStr ''Service A''), (''version'', JStr ''1.0.0''),
                  (''endpoint'', JStr ''http://localhost:8080''),
                  (''health_check'', JStr ''http://localhost:8080/health'')]),
      Some (JObj [(''route'', JStr ''/users''), (''method'', JStr ''GET,POST''),
                  (''service_name'', JStr ''service_a'')]),
      Some (JObj [(''route'', JStr ''/orders''), (''method'', JStr ''GET''),
                  (''service_name'', JStr ''service_a'')])]"
  by (simp add: run_defs named_route_def blank_route_def new_service_def)

subsection \<open>The loop of register against the flow of the spec\<close>

lemma p_request_cong:
  assumes "world t = world s"
      and "p_client self0 = p_client self" and "p_auth self0 = p_auth self"
      and "p_base_url self0 = p_base_url self"
  shows "fst (p_request env self0 t meth path js params auth) =
         fst (p_request env self s meth path js params auth)"
    and "world (snd (p_request env self0 t meth path js params auth)) =
         world (snd (p_request env self s meth path js params auth))"
  using assms by (simp_all add: p_request_result p_request_state split: outcome.splits)

lemma register_route_spec:
  assumes "world t = world s"
      and "p_client self0 = p_client self" and "p_auth self0 = p_auth self"
      and "p_base_url self0 = p_base_url self"
      and "spec_register_route env self0 (route_objs s rt) t = (r, t')"
      and "register_route env self s rt = (res, s')"
  shows "world s' = world t' \<and>
         (case r of
            Inl e \<Rightarrow> res = Inl e
          | Inr v \<Rightarrow> res = Inr (next_route s) \<and> route_objs s' (next_route s) = v)"
proof -
  let ?js = "Some (route_model_dump (route_objs s rt))"
  obtain x s1 where P: "p_request env self s ''POST'' ''/rincon/routes'' ?js None True = (x, s1)"
    by (cases "p_request env self s ''POST'' ''/rincon/routes'' ?js None True")
  obtain y t1 where Q: "p_request env self0 t ''POST'' ''/rincon/routes'' ?js None True = (y, t1)"
    by (cases "p_request env self0 t ''POST'' ''/rincon/routes'' ?js None True")
  from p_request_cong [OF assms(1-4), of env "''POST''" "''/rincon/routes''" ?js None True] P Q
  have xy: "y = x" and w: "world t1 = world s1"
    by simp_all
  from P p_request_state [of env self s "''POST''" "''/rincon/routes''" ?js None True]
  have nr: "next_route s1 = next_route s"
    by simp
  show ?thesis
  proof (cases x)
    case (Inl e)
    with assms(5,6) P Q xy w show ?thesis
      by (auto simp: spec_register_route_def register_route_def)
  next
    case (Inr resp)
    show ?thesis
    proof (cases "resp_json resp")
      case None
      with Inr assms(5,6) P Q xy w show ?thesis
        by (auto simp: spec_register_route_def register_route_def)
    next
      case (Some data)
      with Inr assms(5,6) P Q xy w nr show ?thesis
        by (cases "Route_model_validate env data")
           (auto simp: spec_register_route_def register_route_def route_of_json_def
              new_route_def)
    qed
  qed
qed


lemma register_loop_refines:
  assumes "register_loop env self rs rts s = (res, s')"
      and "\<forall>a\<in>set rts. a < next_route s"
      and "\<forall>a\<in>set (list_objs s (p_routes self)). a < next_route s \<and> a \<notin> set rts"
      and "list_all2 (\<lambda>a v. (route_objs s a)\<lparr>service_name := name rs\<rparr> =
                            v\<lparr>service_name := name rs\<rparr>) rts vs"
      and "world t = world s"
      and "p_client self0 = p_client self" and "p_auth self0 = p_auth self"
      and "p_base_url self0 = p_base_url self"
      and "spec_register_routes env self0 (name rs) vs t = (good, err)"
  shows "res = (case err of None \<Rightarrow> Inr () | Some e \<Rightarrow> Inl e) \<and>
         map (route_objs s') (list_objs s' (p_routes self)) =
           map (route_objs s) (list_objs s (p_routes self)) @ good \<and>
         (case err of None \<Rightarrow> length good = length rts | Some e \<Rightarrow> length good < length rts) \<and>
         length (sent s') =
           length (sent s) + length good + (case err of None \<Rightarrow> 0 | Some e \<Rightarrow> 1)"
  using assms(1,2,3,4,5,9)
proof (induction rts arbitrary: s t vs good err)
  case Nil
  then show ?case by simp
next
  case (Cons rt rest)
  let ?l = "p_routes self"
  let ?nm = "name rs"
  from Cons.prems(4) obtain v vs' where vs: "vs = v # vs'"
    and hd: "(route_objs s rt)\<lparr>service_name := ?nm\<rparr> = v\<lparr>service_name := ?nm\<rparr>"
    and tl: "list_all2 (\<lambda>a v. (route_objs s a)\<lparr>service_name := ?nm\<rparr> =
                              v\<lparr>service_name := ?nm\<rparr>) rest vs'"
    by (auto simp: list_all2_Cons1)
  define s0 where "s0 = set_service_name rt ?nm s"
  have s0rt: "route_objs s0 rt = v\<lparr>service_name := ?nm\<rparr>"
    using hd by (simp add: s0_def)
  obtain res1 s1 where rr: "register_route env self s0 rt = (res1, s1)"
    by (cases "register_route env self s0 rt")
  obtain r1 t1 where sp: "spec_register_route env self0 (route_objs s0 rt) t = (r1, t1)"
    by (cases "spec_register_route env self0 (route_objs s0 rt) t")
  have w0: "world t = world s0" using Cons.prems(5) by (simp add: s0_def)
  note rel = register_route_spec [OF w0 assms(6,7,8) sp rr]
  note eff = register_route_effect [OF rr]
  have old: "route_objs s0 b = route_objs s b" if "b \<in> set (list_objs s ?l)" for b
    using Cons.prems(3) that by (auto simp: s0_def)
  show ?case
  proof (cases r1)
    case (Inl e)
    with rel have res1: "res1 = Inl e" by simp
    with Cons.prems(1) rr have res: "res = Inl e" and s': "s' = s1"
      by (simp_all add: s0_def)
    from Cons.prems(6) sp Inl have good: "good = []" and err: "err = Some e"
      by (simp_all add: vs s0rt)
    from eff(6) [OF res1] have "route_objs s1 = route_objs s0" by simp
    then have "map (route_objs s') (list_objs s' ?l) = map (route_objs s) (list_objs s ?l)"
      using eff(2) old s' by (simp add: s0_def)
    moreover have "length (sent s') = length (sent s) + 1"
      using eff(1) s' by (simp add: s0_def)
    ultimately show ?thesis using res good err by simp
  next
    case (Inr r')
    with rel have res1: "res1 = Inr (next_route s)"
      and new: "route_objs s1 (next_route s) = r'" and w1: "world s1 = world t1"
      by (simp_all add: s0_def)
    define s2 where "s2 = list_append ?l (next_route s) s1"
    from Cons.prems(1) rr res1
    have rest: "register_loop env self rs rest s2 = (res, s')"
      by (simp add: s0_def s2_def)
    obtain good' err' where sp': "spec_register_routes env self0 ?nm vs' t1 = (good', err')"
      by (cases "spec_register_routes env self0 ?nm vs' t1")
    from Cons.prems(6) sp Inr sp' have good: "good = r' # good'" and err: "err = err'"
      by (simp_all add: vs s0rt)
    from eff(7) [OF res1] have nr: "next_route s1 = Suc (next_route s)"
      by blast
    from eff(7) [OF res1]
    have same: "\<And>b. b \<noteq> next_route s \<Longrightarrow> route_objs s1 b = route_objs s0 b"
      by blast
    have below: "route_objs s2 b = route_objs s0 b" if "b < next_route s" for b
      using same [of b] that by (simp add: s2_def)
    have l2: "list_objs s2 ?l = list_objs s ?l @ [next_route s]"
      using eff(2) by (simp add: s2_def s0_def)
    have p1: "\<forall>b\<in>set rest. b < next_route s2"
      using Cons.prems(2) nr by (auto simp: s2_def)
    have p2: "\<forall>b\<in>set (list_objs s2 ?l). b < next_route s2 \<and> b \<notin> set rest"
      using Cons.prems(2,3) nr l2 by (auto simp: s2_def)
    have p3: "list_all2 (\<lambda>a v. (route_objs s2 a)\<lparr>service_name := ?nm\<rparr> =
                              v\<lparr>service_name := ?nm\<rparr>) rest vs'"
    proof (rule list.rel_mono_strong [OF tl])
      fix b w assume "b \<in> set rest"
        and eq: "(route_objs s b)\<lparr>service_name := ?nm\<rparr> = w\<lparr>service_name := ?nm\<rparr>"
      then have "b < next_route s" using Cons.prems(2) by simp
      from below [OF this]
      have "(route_objs s2 b)\<lparr>service_name := ?nm\<rparr> = (route_objs s b)\<lparr>service_name := ?nm\<rparr>"
        by (simp add: s0_def)
      with eq show "(route_objs s2 b)\<lparr>service_name := ?nm\<rparr> = w\<lparr>service_name := ?nm\<rparr>"
        by simp
    qed
    have p4: "world t1 = world s2" using w1 by (simp add: s2_def)
    note IH = Cons.IH [OF rest p1 p2 p3 p4 sp']
    have "map (route_objs s2) (list_objs s ?l) = map (route_objs s) (list_objs s ?l)"
    proof (rule map_cong [OF refl])
      fix b assume b: "b \<in> set (list_objs s ?l)"
      then have "b < next_route s" using Cons.prems(3) by simp
      from below [OF this] old [OF b] show "route_objs s2 b = route_objs s b" by simp
    qed
    moreover have "route_objs s2 (next_route s) = r'" using new by (simp add: s2_def)
    ultimately have "map (route_objs s2) (list_objs s2 ?l) =
        map (route_objs s) (list_objs s ?l) @ [r']"
      by (simp add: l2)
    moreover have "length (sent s2) = length (sent s) + 1"
      using eff(1) by (simp add: s2_def s0_def)
    ultimately show ?thesis using IH by (simp add: good err split: option.splits)
  qed
qed


lemma register_refines:
  assumes "register_service env self s sv = (Inr rs, s1)"
      and "\<forall>a\<in>set rts. a < next_route s"
      and "spec_register_routes env self (name rs) (map (route_objs s) rts) s1 = (good, err)"
      and "register env self s sv (Some rts) = (res, self', s')"
  shows "res = (case err of None \<Rightarrow> Inr rs | Some e \<Rightarrow> Inl e) \<and>
         p_service self' = Some rs \<and>
         map (route_objs s') (list_objs s' (p_routes self')) = good \<and>
         (case err of None \<Rightarrow> length good = length rts | Some e \<Rightarrow> length good < length rts) \<and>
         length (sent s') =
           length (sent s) + 1 + length good + (case err of None \<Rightarrow> 0 | Some e \<Rightarrow> 1)"
proof -
  define self1 where "self1 = self\<lparr>p_service := Some rs, p_routes := next_list s1\<rparr>"
  define s2 where "s2 = snd (new_list [] s1)"
  obtain r3 s3 where loop: "register_loop env self1 rs rts s2 = (r3, s3)"
    by (cases "register_loop env self1 rs rts s2")
  from assms(1,4) loop have s': "s' = s3" and self': "self' = self1"
    and res: "res = (case r3 of Inl e \<Rightarrow> Inl e | Inr u \<Rightarrow> Inr rs)"
    by (auto simp: register_unfold self1_def s2_def split: sum.splits)
  note eff = register_service_effect [OF assms(1)]
  have p1: "\<forall>a\<in>set rts. a < next_route s2"
    using assms(2) eff(3) by (simp add: s2_def)
  have p2: "\<forall>a\<in>set (list_objs s2 (p_routes self1)). a < next_route s2 \<and> a \<notin> set rts"
    by (simp add: s2_def self1_def)
  have p3: "list_all2 (\<lambda>a v. (route_objs s2 a)\<lparr>service_name := name rs\<rparr> =
                            v\<lparr>service_name := name rs\<rparr>) rts (map (route_objs s) rts)"
    using eff(2) by (simp add: s2_def list_all2_map2 list_all2_same)
  have p4: "world s1 = world s2"
    by (simp add: s2_def)
  have p5: "p_client self = p_client self1" "p_auth self = p_auth self1"
    "p_base_url self = p_base_url self1"
    by (simp_all add: self1_def)
  from register_loop_refines [OF loop p1 p2 p3 p4 p5 assms(3)]
  have "r3 = (case err of None \<Rightarrow> Inr () | Some e \<Rightarrow> Inl e)"
    and "map (route_objs s3) (list_objs s3 (p_routes self1)) = good"
    and "case err of None \<Rightarrow> length good = length rts | Some e \<Rightarrow> length good < length rts"
    and "length (sent s3) =
           length (sent s1) + length good + (case err of None \<Rightarrow> 0 | Some e \<Rightarrow> 1)"
    by (simp_all add: s2_def self1_def)
  then show ?thesis
    using s' self' res eff(1) by (simp add: self1_def split: option.splits)
qed

text \<open>
  C4. Let the service be registered as \<open>rs\<close>, and let the flow of route registrations,
  run in submission order, collect the routes \<open>good\<close> and then fail with \<open>e\<close>: the
  registration number \<open>length good + 1\<close> is the one that fails. Then \<^verbatim>\<open>register\<close> raises
  \<open>e\<close>, the session's service is \<open>rs\<close>, and the session's list holds exactly the routes
  \<open>good\<close>, in that order, which are fewer than the routes supplied. The call has sent the
  registration of the service, those of the routes in \<open>good\<close> and the one that failed, and
  nothing after it. The addresses of the caller's Route objects are allocated ones.
\<close>

theorem register_partial_failure:
  assumes "register_service env self s sv = (Inr rs, s1)"
      and "\<forall>a\<in>set rts. a < next_route s"
      and "spec_register_routes env self (name rs) (map (route_objs s) rts) s1 = (good, Some e)"
      and "register env self s sv (Some rts) = (res, self', s')"
  shows "res = Inl e \<and>
         p_service self' = Some rs \<and>
         map (route_objs s') (list_objs s' (p_routes self')) = good \<and>
         length good < length rts \<and>
         length (sent s') = length (sent s) + 1 + length good + 1"
  using register_refines [OF assms] by simp

text \<open>
  Two routes, the second registration answered with a 500: the conflict error is raised,
  the service is set, and the session's list holds the first route only.
\<close>

theorem register_partial_failure_witness:
  "fst (register_service test_env test_client
          (test_start [ok SAMPLE_SERVICE, ok SAMPLE_ROUTE,
                       failed 500 ''route overlaps with existing routes'']) new_service)
     = Inr service_a \<and>
   next_route (test_start [ok SAMPLE_SERVICE, ok SAMPLE_ROUTE,
                           failed 500 ''route overlaps with existing routes'']) = 2 \<and>
   spec_register_routes test_env test_client ''service_a'' [blank_route, named_route]
     (snd (register_service test_env test_client
          (test_start [ok SAMPLE_SERVICE, ok SAMPLE_ROUTE,
                       failed 500 ''route overlaps with existing routes'']) new_service))
     = ([users_route],
        Some (Exn Conflict (JStr ''route overlaps with existing routes'') (Some 500))) \<and>
   fst (register test_env test_client
          (test_start [ok SAMPLE_SERVICE, ok SAMPLE_ROUTE,
                       failed 500 ''route overlaps with existing routes''])
          new_service (Some [0, 1]))
     = Inl (Exn Conflict (JStr ''route overlaps with existing routes'') (Some 500)) \<and>
   p_service (fst (snd (register test_env test_client
          (test_start [ok SAMPLE_SERVICE, ok SAMPLE_ROUTE,
                       failed 500 ''route overlaps with existing routes''])
          new_service (Some [0, 1])))) = Some service_a \<and>
   map (route_objs (snd (snd (register test_env test_client
          (test_start [ok SAMPLE_SERVICE, ok SAMPLE_ROUTE,
                       failed 500 ''route overlaps with existing routes''])
          new_service (Some [0, 1])))))
     (list_objs (snd (snd (register test_env test_client
          (test_start [ok SAMPLE_SERVICE, ok SAMPLE_ROUTE,
                       failed 500 ''route overlaps with existing routes''])
          new_service (Some [0, 1]))))
        (p_routes (fst (snd (register test_env test_client
          (test_start [ok SAMPLE_SERVICE, ok SAMPLE_ROUTE,
                       failed 500 ''route overlaps with existing routes''])
          new_service (Some [0, 1]))))))
     = [users_route] \<and>
   length (sent (snd (snd (register test_env test_client
          (test_start [ok SAMPLE_SERVICE, ok SAMPLE_ROUTE,
                       failed 500 ''route overlaps with existing routes''])
          new_service (Some [0, 1]))))) = 3"
proof -
  let ?s = "test_start [ok SAMPLE_SERVICE, ok SAMPLE_ROUTE,
                        failed 500 ''route overlaps with existing routes'']"
  let ?run = "register test_env test_client ?s new_service (Some [0, 1])"
  let ?rsv = "register_service test_env test_client ?s new_service"
  let ?e = "Exn Conflict (JStr ''route overlaps with existing routes'') (Some 500)"
  have rsv: "fst ?rsv = Inr service_a"
    by (simp add: run_defs)
  then have h1: "?rsv = (Inr service_a, snd ?rsv)"
    by (simp add: prod_eq_iff)
  have nr: "next_route ?s = 2"
    by (simp add: test_start_def init_def new_list_def test_sys_def)
  then have wf: "\<forall>a\<in>set [0, 1]. a < next_route ?s"
    by simp
  have objs: "map (route_objs ?s) [0, 1] = [blank_route, named_route]"
    by (simp add: test_start_def init_def new_list_def test_sys_def)
  have spec: "spec_register_routes test_env test_client ''service_a''
                [blank_route, named_route] (snd ?rsv) = ([users_route], Some ?e)"
    by (simp add: spec_register_route_def run_defs users_route_def)
  have h3: "spec_register_routes test_env test_client (name service_a)
                (map (route_objs ?s) [0, 1]) (snd ?rsv) = ([users_route], Some ?e)"
    using spec objs by (simp add: service_a_def)
  have h4: "?run = (fst ?run, fst (snd ?run), snd (snd ?run))"
    by simp
  have st: "sent ?s = []"
    by (simp add: test_start_def init_def new_list_def test_sys_def)
  from register_partial_failure [OF h1 wf h3 h4] rsv nr spec st
  show ?thesis by simp
qed

subsection \<open>Single operations: what is sent and what comes back\<close>

lemma p_request_frame:
  assumes "p_request env self s meth path js params auth = (x, s')"
  shows "sent s' = sent s @ [\<lparr>req_method = meth, req_path = path, req_params = params,
                              req_json = js,
                              req_auth = (if auth then Some (p_auth self) else None)\<rparr>]"
    and "route_objs s' = route_objs s" and "next_route s' = next_route s"
    and "list_objs s' = list_objs s" and "next_list s' = next_list s"
    and "threads s' = threads s" and "next_thread s' = next_thread s"
  using p_request_state [of env self s meth path js params auth] assms by simp_all

lemma p_request_reply:
  assumes "fst (transport env (p_client self)
                  \<lparr>req_method = meth, req_path = path, req_params = params, req_json = js,
                   req_auth = (if auth then Some (p_auth self) else None)\<rparr> (world s))
           = Reply resp"
  shows "fst (p_request env self s meth path js params auth) =
           (case p_raise_for_status resp of Inl e \<Rightarrow> Inl e | Inr u \<Rightarrow> Inr resp)"
  using assms by (simp add: p_request_result)

lemma raise_200: "status_code resp = 200 \<Longrightarrow> p_raise_for_status resp = Inr ()"
  by (simp add: p_raise_for_status_def)

lemma raise_404:
  "status_code resp = 404 \<Longrightarrow>
     p_raise_for_status resp = Inl (Exn NotFound (error_message resp) (Some 404))"
  by (simp add: p_raise_for_status_def exn_defs)

lemma raise_not_200: "status_code resp \<noteq> 200 \<Longrightarrow> \<exists>e. p_raise_for_status resp = Inl e"
  by (simp add: p_raise_for_status_def Let_def)

lemmas run_defs2 = run_defs registered_client_def registered_sys_def get_route_def
  deregister_def remove_service_def stop_heartbeat_def start_heartbeat_def no_service_def
  str_int_def users_route_def

lemma str_nat_820522: "str_nat 820522 = ''820522''"
  by (simp add: str_nat.simps)

text \<open>
  C7. \<^verbatim>\<open>match_route\<close> issues one request, to \<^verbatim>\<open>/rincon/match\<close>. A path that starts
  with the separator is sent without that one character, whatever follows it (so a
  second separator stays); a path that does not start with the separator is sent as it
  is.
\<close>

theorem match_route_strips_one_separator:
  "sent (snd (match_route env self s (CHR ''/'' # rest) meth)) = sent s @ [GET_match rest meth] \<and>
   ((\<forall>rest. rt \<noteq> CHR ''/'' # rest) \<longrightarrow>
      sent (snd (match_route env self s rt meth)) = sent s @ [GET_match rt meth])"
proof -
  have state: "snd (match_route env self s p meth) =
      snd (p_request env self s ''GET'' ''/rincon/match'' None
             (Some [(''route'', if take 1 p = ''/'' then drop 1 p else p), (''method'', meth)])
             False)" for p
    by (simp add: match_route_def Let_def split: prod.splits sum.splits)
  have plain: "take 1 rt \<noteq> ''/''" if "\<forall>rest. rt \<noteq> CHR ''/'' # rest"
    using that by (cases rt) auto
  show ?thesis
    using plain by (simp add: state p_request_state GET_match_def)
qed

text \<open>
  The path \<^verbatim>\<open>"/users/123"\<close> is sent as \<^verbatim>\<open>"users/123"\<close>, \<^verbatim>\<open>"//users"\<close> as
  \<^verbatim>\<open>"/users"\<close>, and \<^verbatim>\<open>"users/123"\<close> unchanged.
\<close>

theorem match_route_strips_one_separator_witness:
  "sent (snd (match_route test_env test_client (test_start [ok SAMPLE_SERVICE])
                ''/users/123'' ''GET'')) = [GET_match ''users/123'' ''GET''] \<and>
   sent (snd (match_route test_env test_client (test_start [ok SAMPLE_SERVICE])
                ''//users'' ''GET'')) = [GET_match ''/users'' ''GET''] \<and>
   sent (snd (match_route test_env test_client (test_start [ok SAMPLE_SERVICE])
                ''users/123'' ''GET'')) = [GET_match ''users/123'' ''GET'']"
proof -
  let ?s = "test_start [ok SAMPLE_SERVICE]"
  have s: "sent ?s = []"
    by (simp add: test_start_def init_def new_list_def test_sys_def)
  from match_route_strips_one_separator
         [of test_env test_client ?s "''users/123''" "''GET''" "''users/123''"]
       match_route_strips_one_separator
         [of test_env test_client ?s "''/users''" "''GET''" "''users/123''"]
       s
  show ?thesis by simp
qed

text \<open>
  C8. Let the server answer the request of \<^verbatim>\<open>get_route\<close> with \<open>resp\<close>. On status 404
  the not-found error is raised with the server's message. On status 200 with an empty
  list as body the not-found error is raised as well, with the message
  \<^verbatim>\<open>No route <route> found\<close>. On status 200 with a non-empty list whose first element
  validates as the Route \<open>r\<close>, the call returns a new Route object holding \<open>r\<close>.
\<close>

theorem get_route_not_found:
  assumes "fst (transport env (p_client self) (GET_routes (route_params rt meth sv)) (world s))
           = Reply resp"
  shows "(status_code resp = 404 \<longrightarrow>
            fst (get_route env self s rt meth sv) =
              Inl (Exn NotFound (error_message resp) (Some 404))) \<and>
         (status_code resp = 200 \<and> resp_json resp = Some (JArr []) \<longrightarrow>
            fst (get_route env self s rt meth sv) =
              Inl (Exn NotFound (JStr (''No route '' @ rt @ '' found'')) (Some 404))) \<and>
         (\<forall>d ds r. status_code resp = 200 \<and> resp_json resp = Some (JArr (d # ds)) \<and>
                   Route_model_validate env d = Some r \<longrightarrow>
            fst (get_route env self s rt meth sv) = Inr (next_route s) \<and>
            route_objs (snd (get_route env self s rt meth sv)) (next_route s) = r)"
proof -
  let ?ps = "[(''route'', rt)]
               @ (case meth of None \<Rightarrow> [] | Some m \<Rightarrow> [(''method'', m)])
               @ (case sv of None \<Rightarrow> [] | Some n \<Rightarrow> [(''service'', n)])"
  obtain x s1 where P: "p_request env self s ''GET'' ''/rincon/routes'' None (Some ?ps) False
                        = (x, s1)"
    by (cases "p_request env self s ''GET'' ''/rincon/routes'' None (Some ?ps) False")
  have "fst (p_request env self s ''GET'' ''/rincon/routes'' None (Some ?ps) False) =
          (case p_raise_for_status resp of Inl e \<Rightarrow> Inl e | Inr u \<Rightarrow> Inr resp)"
    using assms by (intro p_request_reply) (simp add: GET_routes_def route_params_def)
  with P have x: "x = (case p_raise_for_status resp of Inl e \<Rightarrow> Inl e | Inr u \<Rightarrow> Inr resp)"
    by simp
  note fr = p_request_frame [OF P]
  have c1: "fst (get_route env self s rt meth sv) =
              Inl (Exn NotFound (error_message resp) (Some 404))"
    if "status_code resp = 404"
    using P x raise_404 [OF that] by (simp add: get_route_def)
  have c2: "fst (get_route env self s rt meth sv) =
              Inl (Exn NotFound (JStr (''No route '' @ rt @ '' found'')) (Some 404))"
    if "status_code resp = 200" "resp_json resp = Some (JArr [])"
    using P x raise_200 [OF that(1)] that(2)
    by (simp add: get_route_def RinconNotFoundError_def)
  have c3: "fst (get_route env self s rt meth sv) = Inr (next_route s) \<and>
            route_objs (snd (get_route env self s rt meth sv)) (next_route s) = r"
    if "status_code resp = 200" "resp_json resp = Some (JArr (d # ds))"
       "Route_model_validate env d = Some r" for d ds r
    using P x raise_200 [OF that(1)] that(2,3) fr(3)
    by (simp add: get_route_def route_of_json_def new_route_def)
  from c1 c2 c3 show ?thesis by blast
qed

text \<open>
  A 404 answer, an empty list and a list of two elements.
\<close>

theorem get_route_not_found_witness:
  "fst (get_route test_env test_client (test_start [failed 404 ''No route [GET] /users found''])
          ''/users'' (Some ''GET'') None)
     = Inl (Exn NotFound (JStr ''No route [GET] /users found'') (Some 404)) \<and>
   fst (get_route test_env test_client (test_start [ok (JArr [])]) ''/users'' (Some ''GET'') None)
     = Inl (Exn NotFound (JStr ''No route /users found'') (Some 404)) \<and>
   fst (get_route test_env test_client (test_start [ok (JArr [SAMPLE_ROUTE, JNull])])
          ''/users'' (Some ''GET'') None) = Inr 2 \<and>
   route_objs (snd (get_route test_env test_client (test_start [ok (JArr [SAMPLE_ROUTE, JNull])])
          ''/users'' (Some ''GET'') None)) 2 = users_route"
proof -
  let ?req = "GET_routes (route_params ''/users'' (Some ''GET'') None)"
  let ?r404 = "\<lparr>status_code = 404, resp_text = ''body'',
                 resp_json = Some (JObj [(''message'', JStr ''No route [GET] /users found'')])\<rparr>"
  let ?rnil = "\<lparr>status_code = 200, resp_text = ''body'', resp_json = Some (JArr [])\<rparr>"
  let ?rone = "\<lparr>status_code = 200, resp_text = ''body'',
                 resp_json = Some (JArr [SAMPLE_ROUTE, JNull])\<rparr>"
  have t1: "fst (transport test_env (p_client test_client) ?req
                   (world (test_start [failed 404 ''No route [GET] /users found'']))) = Reply ?r404"
    by (simp add: test_env_def scripted_def test_start_def init_def new_list_def test_sys_def
          failed_def)
  have t2: "fst (transport test_env (p_client test_client) ?req
                   (world (test_start [ok (JArr [])]))) = Reply ?rnil"
    by (simp add: test_env_def scripted_def test_start_def init_def new_list_def test_sys_def
          ok_def)
  have t3: "fst (transport test_env (p_client test_client) ?req
                   (world (test_start [ok (JArr [SAMPLE_ROUTE, JNull])]))) = Reply ?rone"
    by (simp add: test_env_def scripted_def test_start_def init_def new_list_def test_sys_def
          ok_def)
  have v: "Route_model_validate test_env SAMPLE_ROUTE = Some users_route"
    by (simp add: test_env_def validate_route_def str_field_def SAMPLE_ROUTE_def users_route_def)
  have nr: "next_route (test_start [ok (JArr [SAMPLE_ROUTE, JNull])]) = 2"
    by (simp add: test_start_def init_def new_list_def test_sys_def)
  have m: "error_message ?r404 = JStr ''No route [GET] /users found''"
    by (simp add: error_message_def)
  from get_route_not_found [OF t1] get_route_not_found [OF t2] get_route_not_found [OF t3]
       v nr m
  show ?thesis by simp
qed

subsection \<open>Deregistration\<close>

lemma stop_heartbeat_frame:
  assumes "stop_heartbeat env self s = (self', s')"
  shows "p_service self' = p_service self" and "p_routes self' = p_routes self"
    and "p_client self' = p_client self" and "p_auth self' = p_auth self"
    and "p_base_url self' = p_base_url self"
    and "world s' = world s" and "sent s' = sent s"
    and "route_objs s' = route_objs s" and "next_route s' = next_route s"
    and "list_objs s' = list_objs s" and "next_list s' = next_list s"
  using assms
  by (auto simp: stop_heartbeat_def split: option.splits if_splits)

lemma deregister_unfold:
  "deregister env self s =
     (case p_service self of
        None \<Rightarrow> (Inl (Exn Base (JStr ''No service registered with this client'') None), self, s)
      | Some sv \<Rightarrow>
          (case remove_service env (fst (stop_heartbeat env self s))
                  (snd (stop_heartbeat env self s)) (service_id sv) of
             (Inl e, s2) \<Rightarrow> (Inl e, fst (stop_heartbeat env self s), s2)
           | (Inr u, s2) \<Rightarrow>
               (Inr (), (fst (stop_heartbeat env self s))\<lparr>p_service := None,
                                                        p_routes := next_list s2\<rparr>,
                snd (new_list [] s2))))"
  by (simp add: deregister_def no_service_def RinconError_def new_list_def Let_def
      split: option.splits prod.splits sum.splits)

text \<open>
  C5. With no service registered, \<^verbatim>\<open>deregister\<close> raises the session error and changes
  nothing: no request is sent. With the service \<open>sv\<close> registered it sends exactly one
  request, the removal of the service with the id of \<open>sv\<close>. When the server answers that
  request with status 200, the call returns, and the session's service is absent and
  its route list empty. In every other case the call raises, and the session's service,
  its route list and the Route objects are what they were.
\<close>

theorem deregister_clears_after_remote_success:
  assumes "deregister env self s = (res, self', s')"
  shows "(p_service self = None \<longrightarrow>
            res = Inl (Exn Base (JStr ''No service registered with this client'') None) \<and>
            self' = self \<and> s' = s) \<and>
         (\<forall>sv. p_service self = Some sv \<longrightarrow>
            sent s' = sent s @ [DELETE_services self (service_id sv)] \<and>
            ((\<exists>resp. fst (transport env (p_client self)
                            (DELETE_services self (service_id sv)) (world s)) = Reply resp \<and>
                     status_code resp = 200) \<longrightarrow>
               res = Inr () \<and> p_service self' = None \<and> list_objs s' (p_routes self') = []) \<and>
            (\<not> (\<exists>resp. fst (transport env (p_client self)
                              (DELETE_services self (service_id sv)) (world s)) = Reply resp \<and>
                       status_code resp = 200) \<longrightarrow>
               (\<exists>e. res = Inl e) \<and> p_service self' = p_service self \<and>
               p_routes self' = p_routes self \<and> list_objs s' = list_objs s \<and>
               route_objs s' = route_objs s))"
proof -
  have none: "res = Inl (Exn Base (JStr ''No service registered with this client'') None) \<and>
        self' = self \<and> s' = s" if "p_service self = None"
    using assms that by (simp add: deregister_unfold)
  have some: "sent s' = sent s @ [DELETE_services self (service_id sv)] \<and>
            ((\<exists>resp. fst (transport env (p_client self)
                            (DELETE_services self (service_id sv)) (world s)) = Reply resp \<and>
                     status_code resp = 200) \<longrightarrow>
               res = Inr () \<and> p_service self' = None \<and> list_objs s' (p_routes self') = []) \<and>
            (\<not> (\<exists>resp. fst (transport env (p_client self)
                              (DELETE_services self (service_id sv)) (world s)) = Reply resp \<and>
                       status_code resp = 200) \<longrightarrow>
               (\<exists>e. res = Inl e) \<and> p_service self' = p_service self \<and>
               p_routes self' = p_routes self \<and> list_objs s' = list_objs s \<and>
               route_objs s' = route_objs s)"
    if sv: "p_service self = Some sv" for sv
  proof -
    let ?ok = "\<exists>resp. fst (transport env (p_client self)
                            (DELETE_services self (service_id sv)) (world s)) = Reply resp \<and>
                     status_code resp = 200"
    obtain self1 s1 where sh: "stop_heartbeat env self s = (self1, s1)"
      by (cases "stop_heartbeat env self s")
    note fr = stop_heartbeat_frame [OF sh]
    let ?path = "''/rincon/services/'' @ str_int (service_id sv)"
    obtain x s2 where P: "p_request env self1 s1 ''DELETE'' ?path None None True = (x, s2)"
      by (cases "p_request env self1 s1 ''DELETE'' ?path None None True")
    note pf = p_request_frame [OF P]
    have req: "\<lparr>req_method = ''DELETE'', req_path = ?path, req_params = None, req_json = None,
                req_auth = Some (p_auth self1)\<rparr> = DELETE_services self (service_id sv)"
      using fr(4) by (simp add: DELETE_services_def)
    have x: "x = (case fst (transport env (p_client self)
                          (DELETE_services self (service_id sv)) (world s)) of
          ConnectError \<Rightarrow>
            Inl (Exn Connection
                   (JStr (''Failed to connect to Rincon at '' @ p_base_url self1)) None)
        | TimeoutException \<Rightarrow>
            Inl (Exn Connection (JStr (''Request to Rincon timed out: '' @ ?path)) None)
        | OtherTransportError \<Rightarrow> Inl HTTPError
        | Reply resp \<Rightarrow>
            (case p_raise_for_status resp of Inl e \<Rightarrow> Inl e | Inr u \<Rightarrow> Inr resp))"
      using P p_request_result [of env self1 s1 "''DELETE''" ?path None None True] req fr(3,6)
      by simp
    have dereg: "(res, self', s') =
        (case x of Inl e \<Rightarrow> (Inl e, self1, s2)
         | Inr u \<Rightarrow> (Inr (), self1\<lparr>p_service := None, p_routes := next_list s2\<rparr>,
                      snd (new_list [] s2)))"
      using assms sv sh P by (simp add: deregister_unfold remove_service_def split: sum.splits)
    have a: "sent s' = sent s @ [DELETE_services self (service_id sv)]"
      using dereg pf(1) req fr(7) by (auto split: sum.splits)
    have b: "res = Inr () \<and> p_service self' = None \<and> list_objs s' (p_routes self') = []"
      if "?ok"
    proof -
      from that obtain resp where "x = Inr resp"
        using x by (auto simp: raise_200)
      with dereg show ?thesis by simp
    qed
    have c: "(\<exists>e. res = Inl e) \<and> p_service self' = p_service self \<and>
             p_routes self' = p_routes self \<and> list_objs s' = list_objs s \<and>
             route_objs s' = route_objs s"
      if no: "\<not> ?ok"
    proof -
      have "\<exists>e. x = Inl e"
      proof (cases "fst (transport env (p_client self)
                            (DELETE_services self (service_id sv)) (world s))")
        case (Reply resp)
        with no have "status_code resp \<noteq> 200" by simp
        from raise_not_200 [OF this] Reply x show ?thesis by auto
      qed (simp_all add: x)
      then obtain e where "x = Inl e" ..
      with dereg have "res = Inl e" "self' = self1" "s' = s2" by simp_all
      then show ?thesis using fr pf by simp
    qed
    from a b c show ?thesis by blast
  qed
  from none some show ?thesis by blast
qed

text \<open>
  The client of the tests without a registration, and a registered client whose removal
  is answered with 200 and with 404.
\<close>

theorem deregister_clears_after_remote_success_witness:
  "deregister test_env test_client (test_start [])
     = (Inl (Exn Base (JStr ''No service registered with this client'') None),
        test_client, test_start []) \<and>
   p_service registered_client = Some service_a \<and>
   fst (deregister test_env registered_client (registered_sys [ok JNull])) = Inr () \<and>
   sent (snd (snd (deregister test_env registered_client (registered_sys [ok JNull]))))
     = sent (registered_sys [ok JNull]) @ [DELETE_services registered_client 820522] \<and>
   p_service (fst (snd (deregister test_env registered_client (registered_sys [ok JNull]))))
     = None \<and>
   list_objs (snd (snd (deregister test_env registered_client (registered_sys [ok JNull]))))
     (p_routes (fst (snd (deregister test_env registered_client (registered_sys [ok JNull])))))
     = [] \<and>
   fst (deregister test_env registered_client
          (registered_sys [failed 404 ''No service with id 820522 found'']))
     = Inl (Exn NotFound (JStr ''No service with id 820522 found'') (Some 404)) \<and>
   p_service (fst (snd (deregister test_env registered_client
          (registered_sys [failed 404 ''No service with id 820522 found'']))))
     = Some service_a \<and>
   list_objs (snd (snd (deregister test_env registered_client
          (registered_sys [failed 404 ''No service with id 820522 found'']))))
     (p_routes (fst (snd (deregister test_env registered_client
          (registered_sys [failed 404 ''No service with id 820522 found''])))))
     = [2]"
proof -
  let ?d0 = "deregister test_env test_client (test_start [])"
  let ?s1 = "registered_sys [ok JNull]"
  let ?d1 = "deregister test_env registered_client ?s1"
  let ?s2 = "registered_sys [failed 404 ''No service with id 820522 found'']"
  let ?d2 = "deregister test_env registered_client ?s2"
  let ?req = "DELETE_services registered_client 820522"
  have h0: "?d0 = (fst ?d0, fst (snd ?d0), snd (snd ?d0))" by simp
  have h1: "?d1 = (fst ?d1, fst (snd ?d1), snd (snd ?d1))" by simp
  have h2: "?d2 = (fst ?d2, fst (snd ?d2), snd (snd ?d2))" by simp
  have n0: "p_service test_client = None"
    by (simp add: test_client_def init_def new_list_def)
  have sv: "p_service registered_client = Some service_a"
    by (simp add: run_defs2)
  have id: "service_id service_a = 820522"
    by (simp add: service_a_def)
  have t1: "fst (transport test_env (p_client registered_client) ?req (world ?s1))
              = Reply \<lparr>status_code = 200, resp_text = ''body'', resp_json = Some JNull\<rparr>"
    by (simp add: run_defs2)
  have t2: "fst (transport test_env (p_client registered_client) ?req (world ?s2))
              = Reply \<lparr>status_code = 404, resp_text = ''body'',
                   resp_json = Some (JObj [(''message'', JStr ''No service with id 820522 found'')])\<rparr>"
    by (simp add: run_defs2)
  have l2: "list_objs ?s2 (p_routes registered_client) = [2]"
    by (simp add: run_defs2)
  have e2: "fst ?d2 = Inl (Exn NotFound (JStr ''No service with id 820522 found'') (Some 404))"
    by (simp add: run_defs2 str_nat_820522)
  from deregister_clears_after_remote_success [OF h0]
       deregister_clears_after_remote_success [OF h1]
       deregister_clears_after_remote_success [OF h2]
       n0 sv id t1 t2 l2 e2
  show ?thesis by (simp add: prod_eq_iff)
qed

text \<open>
  C6. After a \<^verbatim>\<open>register\<close> that returns, the session's service is set; after a
  \<^verbatim>\<open>deregister\<close> that returns next, the service is absent and the route list is empty, as
  they are after \<^verbatim>\<open>__init__\<close>, and another \<^verbatim>\<open>deregister\<close> raises the session error
  "No service registered with this client" and changes nothing.
\<close>

theorem register_deregister_roundtrip:
  assumes "register env self s sv rts = (Inr rs, self1, s1)"
      and "deregister env self1 s1 = (Inr (), self2, s2)"
  shows "p_service self1 = Some rs \<and>
         p_service self2 = None \<and>
         list_objs s2 (p_routes self2) = [] \<and>
         p_service self2 = p_service (fst (init url user pw tmo s0)) \<and>
         list_objs s2 (p_routes self2) =
           list_objs (snd (init url user pw tmo s0)) (p_routes (fst (init url user pw tmo s0))) \<and>
         deregister env self2 s2 =
           (Inl (Exn Base (JStr ''No service registered with this client'') None), self2, s2)"
proof -
  have set: "p_service self1 = Some rs"
    using assms(1) by (auto simp: register_unfold split: prod.splits sum.splits)
  have cleared: "p_service self2 = None \<and> list_objs s2 (p_routes self2) = []"
    using assms(2) set by (auto simp: deregister_unfold split: prod.splits sum.splits)
  have initial: "p_service (fst (init url user pw tmo s0)) = None"
    "list_objs (snd (init url user pw tmo s0)) (p_routes (fst (init url user pw tmo s0))) = []"
    by (simp_all add: init_def new_list_def)
  have again: "deregister env self2 s2 =
           (Inl (Exn Base (JStr ''No service registered with this client'') None), self2, s2)"
    using cleared by (simp add: deregister_unfold)
  from set cleared initial again show ?thesis by simp
qed

text \<open>
  Register a service with one route, deregister, deregister again.
\<close>

theorem register_deregister_roundtrip_witness:
  "fst (register test_env test_client
          (test_start [ok SAMPLE_SERVICE, ok SAMPLE_ROUTE, ok JNull]) new_service (Some [0]))
     = Inr service_a \<and>
   fst (deregister test_env
          (fst (snd (register test_env test_client
             (test_start [ok SAMPLE_SERVICE, ok SAMPLE_ROUTE, ok JNull]) new_service (Some [0]))))
          (snd (snd (register test_env test_client
             (test_start [ok SAMPLE_SERVICE, ok SAMPLE_ROUTE, ok JNull]) new_service (Some [0])))))
     = Inr () \<and>
   p_service (fst (snd (deregister test_env
          (fst (snd (register test_env test_client
             (test_start [ok SAMPLE_SERVICE, ok SAMPLE_ROUTE, ok JNull]) new_service (Some [0]))))
          (snd (snd (register test_env test_client
             (test_start [ok SAMPLE_SERVICE, ok SAMPLE_ROUTE, ok JNull]) new_service (Some [0])))))))
     = None \<and>
   fst (deregister test_env
          (fst (snd (deregister test_env
             (fst (snd (register test_env test_client
                (test_start [ok SAMPLE_SERVICE, ok SAMPLE_ROUTE, ok JNull]) new_service (Some [0]))))
             (snd (snd (register test_env test_client
                (test_start [ok SAMPLE_SERVICE, ok SAMPLE_ROUTE, ok JNull]) new_service (Some [0])))))))
          (snd (snd (deregister test_env
             (fst (snd (register test_env test_client
                (test_start [ok SAMPLE_SERVICE, ok SAMPLE_ROUTE, ok JNull]) new_service (Some [0]))))
             (snd (snd (register test_env test_client
                (test_start [ok SAMPLE_SERVICE, ok SAMPLE_ROUTE, ok JNull]) new_service (Some [0]))))))))
     = Inl (Exn Base (JStr ''No service registered with this client'') None)"
proof -
  let ?r = "register test_env test_client
              (test_start [ok SAMPLE_SERVICE, ok SAMPLE_ROUTE, ok JNull]) new_service (Some [0])"
  let ?d = "deregister test_env (fst (snd ?r)) (snd (snd ?r))"
  have r: "fst ?r = Inr service_a"
    by (simp add: run_defs)
  then have h1: "?r = (Inr service_a, fst (snd ?r), snd (snd ?r))"
    by (simp add: prod_eq_iff)
  have d: "fst ?d = Inr ()"
    by (simp add: run_defs2 str_nat_820522)
  then have h2: "?d = (Inr (), fst (snd ?d), snd (snd ?d))"
    by (simp add: prod_eq_iff)
  from register_deregister_roundtrip
         [where url = "''http://localhost:10311''" and user = "''admin''" and pw = "''admin''"
            and tmo = 10 and ?s0.0 = "test_sys []", OF h1 h2] r d
  show ?thesis by simp
qed

subsection \<open>Starting the heartbeat\<close>

text \<open>
  C9. With no service registered, \<^verbatim>\<open>start_heartbeat\<close> raises the session error and
  changes nothing: no request is sent and no thread is created. With a service
  registered and a heartbeat thread alive, the call returns and changes nothing. With a
  service registered the call returns, at most one thread has been created, and a
  second call right after it returns and changes nothing.
\<close>

theorem start_heartbeat_guards:
  "(p_service self = None \<longrightarrow>
      start_heartbeat env self s ival =
        (Inl (Exn Base (JStr ''No service registered with this client'') None), self, s)) \<and>
   (\<forall>t. p_service self \<noteq> None \<and> p_heartbeat_thread self = Some t \<and> is_alive (threads s t) \<longrightarrow>
      start_heartbeat env self s ival = (Inr (), self, s)) \<and>
   (p_service self \<noteq> None \<longrightarrow>
      fst (start_heartbeat env self s ival) = Inr () \<and>
      next_thread (snd (snd (start_heartbeat env self s ival))) \<le> Suc (next_thread s) \<and>
      start_heartbeat env (fst (snd (start_heartbeat env self s ival)))
          (snd (snd (start_heartbeat env self s ival))) ival' =
        (Inr (), fst (snd (start_heartbeat env self s ival)),
         snd (snd (start_heartbeat env self s ival))))"
  by (auto simp: start_heartbeat_def no_service_def RinconError_def Let_def
      split: option.splits)

text \<open>
  The client of the tests without a registration; a registered client that starts the
  heartbeat twice: there is one thread.
\<close>

theorem start_heartbeat_guards_witness:
  "start_heartbeat test_env test_client (test_start []) 10 =
     (Inl (Exn Base (JStr ''No service registered with this client'') None),
      test_client, test_start []) \<and>
   p_service registered_client = Some service_a \<and>
   fst (start_heartbeat test_env registered_client (registered_sys []) 10) = Inr () \<and>
   p_heartbeat_thread (fst (snd (start_heartbeat test_env registered_client
                                   (registered_sys []) 10))) = Some 0 \<and>
   is_alive (threads (snd (snd (start_heartbeat test_env registered_client
                                   (registered_sys []) 10))) 0) \<and>
   next_thread (snd (snd (start_heartbeat test_env registered_client (registered_sys []) 10)))
     = 1 \<and>
   start_heartbeat test_env
       (fst (snd (start_heartbeat test_env registered_client (registered_sys []) 10)))
       (snd (snd (start_heartbeat test_env registered_client (registered_sys []) 10))) 10 =
     (Inr (), fst (snd (start_heartbeat test_env registered_client (registered_sys []) 10)),
      snd (snd (start_heartbeat test_env registered_client (registered_sys []) 10)))"
proof -
  let ?h = "start_heartbeat test_env registered_client (registered_sys []) 10"
  have n0: "p_service test_client = None"
    by (simp add: test_client_def init_def new_list_def)
  have sv: "p_service registered_client = Some service_a"
    by (simp add: run_defs2)
  have th: "p_heartbeat_thread (fst (snd ?h)) = Some 0" "is_alive (threads (snd (snd ?h)) 0)"
    "next_thread (snd (snd ?h)) = 1"
    by (simp_all add: run_defs2)
  from start_heartbeat_guards [of test_client test_env "test_start []" 10 10]
       start_heartbeat_guards [of registered_client test_env "registered_sys []" 10 10]
       start_heartbeat_guards [of "fst (snd ?h)" test_env "snd (snd ?h)" 10 10]
       n0 sv th
  show ?thesis by simp
qed

subsection \<open>The public accessors\<close>

text \<open>
  C2. The tests read \<^verbatim>\<open>client.service\<close> and \<^verbatim>\<open>client.routes\<close>
  (\<^verbatim>\<open>TestProperties\<close> in \<^verbatim>\<open>tests/test_client.py\<close>), and the spec asks for these two
  accessors, the second returning a copy. The class defines neither: a client has the
  private attributes \<^verbatim>\<open>_service\<close> and \<^verbatim>\<open>_routes\<close> only, so reading \<^verbatim>\<open>client.service\<close>
  or \<^verbatim>\<open>client.routes\<close> raises \<^verbatim>\<open>AttributeError\<close>.
\<close>

theorem accessors_missing:
  "\<not> has_attribute ''service'' \<and> \<not> has_attribute ''routes'' \<and>
   has_attribute ''_service'' \<and> has_attribute ''_routes''"
  by (simp add: has_attribute_def class_attributes_def instance_attributes_def)

end
